theory Spec2Isabelle
  imports Complex_Main
begin

section \<open>VitalSync: the simulation and analytics engine of app.js\<close>

text \<open>
  The theory embeds the engine of \<^verbatim>\<open>src/app.js\<close>: the signal generator
  (\<^verbatim>\<open>generateVital\<close>), the tick (\<^verbatim>\<open>updateAllVitals\<close>), the correlation engine
  (\<^verbatim>\<open>pearsonCorrelation\<close>, \<^verbatim>\<open>updateCorrelations\<close>), the risk engine
  (\<^verbatim>\<open>updateRisks\<close>, and the smoothing step of \<^verbatim>\<open>renderRisks\<close>), the event log
  (\<^verbatim>\<open>addAnomaly\<close>) and the initialization (\<^verbatim>\<open>init\<close>).

  Conventions of the embedding.
  \<^item> A JavaScript number is a \<open>real\<close>: arithmetic is exact, the rounding of IEEE
    doubles is not represented. The tick counters, which only ever hold integers, are
    \<open>int\<close>.
  \<^item> The global object \<^verbatim>\<open>state\<close> is a record that every function takes and returns.
  \<^item> What a call reads from the platform (\<^verbatim>\<open>Math.random()\<close>, \<^verbatim>\<open>Date.now()\<close>,
    \<^verbatim>\<open>formatTime(new Date())\<close>) is an argument of the model, the record \<open>env\<close>.
  \<^item> The functions that only write to the page (\<^verbatim>\<open>renderVitals\<close>,
    \<^verbatim>\<open>renderCorrelationMatrix\<close>, \<^verbatim>\<open>renderTrendCharts\<close>, \<^verbatim>\<open>renderAnomalyTimeline\<close>,
    \<^verbatim>\<open>updateHeader\<close>, and the drawing part of \<^verbatim>\<open>renderRisks\<close>) change no field
    of \<^verbatim>\<open>state\<close> and are left out.
\<close>

subsection \<open>CONFIG\<close>

definition chartPoints :: nat where
  "chartPoints = 40"

definition trendPoints :: nat where
  "trendPoints = 60"

datatype signal = Hr | Spo2 | Bp_sys | Bp_dia | Temp | Rr | Hrv

text \<open>The keys of \<^verbatim>\<open>state.vitals\<close>, as the strings the source writes.\<close>

fun signal_key :: "signal \<Rightarrow> string" where
  "signal_key Hr = ''hr''"
| "signal_key Spo2 = ''spo2''"
| "signal_key Bp_sys = ''bp_sys''"
| "signal_key Bp_dia = ''bp_dia''"
| "signal_key Temp = ''temp''"
| "signal_key Rr = ''rr''"
| "signal_key Hrv = ''hrv''"

definition signals :: "signal list" where
  "signals = [Hr, Spo2, Bp_sys, Bp_dia, Temp, Rr, Hrv]"

subsection \<open>STATE\<close>

record vital =
  value_v :: real
  baseline :: real
  min_v :: real
  max_v :: real
  variance :: real
  unit_v :: string
  history :: "real list"

record risk =
  value_r :: real
  target :: real
  factors :: "string list"

datatype risk_key = Cardio | Respiratory | Metabolic | Apnea

record anomaly =
  id_a :: int
  time_a :: string
  title :: string
  description :: string
  tags :: "string list"
  severity :: string
  status :: string

record anomaly_stats =
  total :: nat
  critical :: nat
  resolved :: nat

record app_state =
  vitals :: "signal \<Rightarrow> vital"
  correlations :: "string \<rightharpoonup> real"
  risks :: "risk_key \<Rightarrow> risk"
  anomalies :: "anomaly list"
  anomalyStats :: anomaly_stats
  trendData :: "signal \<Rightarrow> real list"
  tick :: int
  anomalyMode :: bool
  anomalyModeStart :: int
  nextAnomalyTick :: int

text \<open>
  The literal \<^verbatim>\<open>const state = { ... }\<close>. \<^verbatim>\<open>trendData\<close> has no key \<^verbatim>\<open>temp\<close> in the
  source and nothing ever reads or writes one; the model's entry for \<open>Temp\<close> stays empty.
\<close>

definition degree_F :: string where
  "degree_F = [CHR 0xC2, CHR 0xB0] @ ''F''"

fun initial_vital :: "signal \<Rightarrow> vital" where
  "initial_vital Hr = \<lparr>value_v = 72, baseline = 72, min_v = 55, max_v = 105, variance = 3,
     unit_v = ''BPM'', history = []\<rparr>"
| "initial_vital Spo2 = \<lparr>value_v = 98, baseline = 98, min_v = 92, max_v = 100, variance = 0.5,
     unit_v = ''%'', history = []\<rparr>"
| "initial_vital Bp_sys = \<lparr>value_v = 120, baseline = 120, min_v = 95, max_v = 150, variance = 4,
     unit_v = ''mmHg'', history = []\<rparr>"
| "initial_vital Bp_dia = \<lparr>value_v = 80, baseline = 80, min_v = 60, max_v = 100, variance = 3,
     unit_v = ''mmHg'', history = []\<rparr>"
| "initial_vital Temp = \<lparr>value_v = 98.6, baseline = 98.6, min_v = 96.5, max_v = 101,
     variance = 0.2, unit_v = degree_F, history = []\<rparr>"
| "initial_vital Rr = \<lparr>value_v = 16, baseline = 16, min_v = 10, max_v = 25, variance = 1.5,
     unit_v = ''br/min'', history = []\<rparr>"
| "initial_vital Hrv = \<lparr>value_v = 42, baseline = 42, min_v = 15, max_v = 80, variance = 4,
     unit_v = ''ms'', history = []\<rparr>"

fun initial_risk :: "risk_key \<Rightarrow> risk" where
  "initial_risk Cardio = \<lparr>value_r = 12, target = 12, factors = []\<rparr>"
| "initial_risk Respiratory = \<lparr>value_r = 8, target = 8, factors = []\<rparr>"
| "initial_risk Metabolic = \<lparr>value_r = 15, target = 15, factors = []\<rparr>"
| "initial_risk Apnea = \<lparr>value_r = 6, target = 6, factors = []\<rparr>"

definition state :: app_state where
  "state = \<lparr>vitals = initial_vital, correlations = Map.empty, risks = initial_risk,
     anomalies = [], anomalyStats = \<lparr>total = 0, critical = 0, resolved = 0\<rparr>,
     trendData = (\<lambda>_. []), tick = 0, anomalyMode = False, anomalyModeStart = 0,
     nextAnomalyTick = 30\<rparr>"

subsection \<open>The platform\<close>

text \<open>
  What one call of \<^verbatim>\<open>generateVital\<close> or \<^verbatim>\<open>addAnomaly\<close> reads from the platform.
  \<^verbatim>\<open>gaussRandom()\<close> draws \<^verbatim>\<open>u\<close> and \<^verbatim>\<open>v\<close> from \<^verbatim>\<open>Math.random()\<close>, each in a loop that
  repeats the draw while it is exactly 0; \<open>noise_u\<close>, \<open>noise_v\<close> are the draws with which
  the two loops of the first call end, \<open>drift_u\<close>, \<open>drift_v\<close> those of the call inside the
  \<^verbatim>\<open>switch\<close>. A random source that returns 0 for ever, so that a loop never ends, is not
  represented: the model describes the ticks that return. \<open>next_rnd\<close> is the
  \<^verbatim>\<open>Math.random()\<close> of the rescheduling, \<open>date_now\<close> is \<^verbatim>\<open>Date.now()\<close> and
  \<open>time_now\<close> is \<^verbatim>\<open>formatTime(now)\<close>.
\<close>

record env =
  noise_u :: real
  noise_v :: real
  drift_u :: real
  drift_v :: real
  next_rnd :: real
  date_now :: int
  time_now :: string

text \<open>A tick reads the clock once more, for the event of the trigger.\<close>

record tick_env =
  trigger_env :: env
  signal_env :: "signal \<Rightarrow> env"

subsection \<open>UTILITIES\<close>

definition clamp :: "real \<Rightarrow> real \<Rightarrow> real \<Rightarrow> real" where
  "clamp v lo hi = max lo (min hi v)"

definition lerp :: "real \<Rightarrow> real \<Rightarrow> real \<Rightarrow> real" where
  "lerp a b t = a + (b - a) * t"

text \<open>The last line of \<^verbatim>\<open>gaussRandom\<close>, the Box-Muller transform of the two draws.\<close>

definition gaussRandom :: "real \<Rightarrow> real \<Rightarrow> real" where
  "gaussRandom u v = sqrt (- 2.0 * ln u) * cos (2.0 * pi * v)"

text \<open>\<^verbatim>\<open>Math.round\<close> rounds to the nearest integer, a half towards plus infinity.\<close>

definition Math_round :: "real \<Rightarrow> real" where
  "Math_round x = of_int \<lfloor>x + 1 / 2\<rfloor>"

text \<open>
  \<^verbatim>\<open>x.slice(-n)\<close> for \<open>n > 0\<close>: the last \<open>n\<close> elements, the whole array when it has
  fewer. (\<^verbatim>\<open>slice(-0)\<close> is the whole array as well.)
\<close>

definition slice_last :: "nat \<Rightarrow> 'a list \<Rightarrow> 'a list" where
  "slice_last n x = drop (length x - n) x"

definition pearsonCorrelation :: "real list \<Rightarrow> real list \<Rightarrow> real" where
  "pearsonCorrelation x y =
     (let n = min (length x) (length y) in
      if n < 5 then 0
      else
        let xs = slice_last n x;
            ys = slice_last n y;
            mx = foldl (\<lambda>a b. a + b) 0 xs / real n;
            my = foldl (\<lambda>a b. a + b) 0 ys / real n;
            (num, dx, dy) =
              fold (\<lambda>i (num, dx, dy).
                      let xd = xs ! i - mx; yd = ys ! i - my
                      in (num + xd * yd, dx + xd * xd, dy + yd * yd))
                [0..<n] (0, 0, 0);
            denom = sqrt (dx * dy)
        in if denom = 0 then 0 else num / denom)"

subsection \<open>ANOMALY EVENTS\<close>

definition addAnomaly ::
  "env \<Rightarrow> string \<Rightarrow> string \<Rightarrow> string \<Rightarrow> string list \<Rightarrow> string \<Rightarrow> app_state \<Rightarrow> app_state" where
  "addAnomaly e status' title' description' tags' severity' s =
     (let unshifted =
            \<lparr>id_a = date_now e, time_a = time_now e, title = title',
             description = description', tags = tags', severity = severity',
             status = status'\<rparr> # anomalies s;
          popped = (if length unshifted > 15 then butlast unshifted else unshifted)
      in s\<lparr>anomalies := popped,
           anomalyStats :=
             \<lparr>total = length popped,
              critical = length (filter (\<lambda>a. severity a = ''high'' \<or> status a = ''active'') popped),
              resolved = length (filter (\<lambda>a. status a = ''auto-resolved'') popped)\<rparr>\<rparr>)"

subsection \<open>VITALS SIMULATOR\<close>

definition resolved_title :: string where
  "resolved_title = ''Multi-Signal Pattern Normalized''"

definition resolved_description :: string where
  "resolved_description =
     ''Correlation patterns have returned to baseline. The transient divergence resolved without intervention.''"

definition resolved_tags :: "string list" where
  "resolved_tags = [''HR'', ''SpO2'', ''HRV'']"

definition active_title :: string where
  "active_title = ''Multi-Signal Correlation Divergence Detected''"

definition active_description :: string where
  "active_description =
     ''HR-SpO2 inverse correlation strengthening while HRV is declining. This pattern may indicate early-stage autonomic stress response. Monitoring closely.''"

text \<open>The first tag is \<^verbatim>\<open>HR\<close>, U+2194 (three bytes in UTF-8), \<^verbatim>\<open>SpO2\<close>.\<close>

definition active_tags :: "string list" where
  "active_tags =
     [''HR'' @ [CHR 0xE2, CHR 0x86, CHR 0x94] @ ''SpO2'', ''HRV Decline'', ''Correlation Shift'']"

text \<open>The \<^verbatim>\<open>switch (signal)\<close> of the anomaly mode; \<open>g\<close> is the result of its \<^verbatim>\<open>gaussRandom()\<close>.
  There is no case for \<^verbatim>\<open>bp_dia\<close>.\<close>

fun anomaly_drift :: "signal \<Rightarrow> real \<Rightarrow> real \<Rightarrow> real \<Rightarrow> real" where
  "anomaly_drift Hr severity' g newVal = newVal + (severity' * 8 + g * 2)"
| "anomaly_drift Spo2 severity' g newVal = newVal - (severity' * 2.5 + \<bar>g\<bar> * 0.5)"
| "anomaly_drift Rr severity' g newVal = newVal + (severity' * 4 + g)"
| "anomaly_drift Hrv severity' g newVal = newVal - (severity' * 10 + \<bar>g\<bar> * 2)"
| "anomaly_drift Bp_sys severity' g newVal = newVal + (severity' * 6 + g * 2)"
| "anomaly_drift Temp severity' g newVal = newVal + (severity' * 0.6 + g * 0.1)"
| "anomaly_drift Bp_dia severity' g newVal = newVal"

definition generateVital :: "signal \<Rightarrow> env \<Rightarrow> app_state \<Rightarrow> app_state" where
  "generateVital sig e s =
     (let v = vitals s sig;
          tick' = tick s;
          circadian = sin (of_int tick' * 0.02) * variance v * 0.5;
          noise = gaussRandom (noise_u e) (noise_v e) * variance v;
          reversion = (baseline v - value_v v) * 0.08;
          newVal0 = value_v v + reversion + circadian * 0.1 + noise;
          (newVal1, s1) =
            (if anomalyMode s then
               let elapsed = tick' - anomalyModeStart s;
                   severity' = min (of_int elapsed / 15) 1;
                   drifted = anomaly_drift sig severity' (gaussRandom (drift_u e) (drift_v e)) newVal0
               in if elapsed > 20 then
                    (drifted,
                     (addAnomaly e ''auto-resolved'' resolved_title resolved_description
                        resolved_tags ''low'' (s\<lparr>anomalyMode := False\<rparr>))
                     \<lparr>nextAnomalyTick := tick' + 25 + \<lfloor>next_rnd e * 20\<rfloor>\<rparr>)
                  else (drifted, s)
             else (newVal0, s));
          newVal2 = clamp newVal1 (min_v v) (max_v v);
          newVal3 = (if sig = Spo2 then Math_round (newVal2 * 10) / 10 else newVal2);
          newVal4 = (if sig = Temp then Math_round (newVal3 * 10) / 10
                     else if sig \<noteq> Spo2 then Math_round (newVal3 * 10) / 10
                     else newVal3);
          pushed = history v @ [newVal4];
          shifted = (if length pushed > chartPoints then tl pushed else pushed)
      in s1\<lparr>vitals := (vitals s1)(sig := v\<lparr>value_v := newVal4, history := shifted\<rparr>)\<rparr>)"

subsection \<open>CORRELATION ENGINE\<close>

definition matrixSignals :: "signal list" where
  "matrixSignals = [Hr, Spo2, Bp_sys, Temp, Rr, Hrv]"

definition corr_key :: "signal \<Rightarrow> signal \<Rightarrow> string" where
  "corr_key a b = signal_key a @ ''_'' @ signal_key b"

definition updateCorrelations :: "app_state \<Rightarrow> app_state" where
  "updateCorrelations s =
     fold (\<lambda>i. fold (\<lambda>j st.
             let key = corr_key (matrixSignals ! i) (matrixSignals ! j)
             in if i = j then st\<lparr>correlations := (correlations st)(key \<mapsto> 1)\<rparr>
                else
                  let x = history (vitals st (matrixSignals ! i));
                      y = history (vitals st (matrixSignals ! j))
                  in st\<lparr>correlations := (correlations st)(key \<mapsto> pearsonCorrelation x y)\<rparr>)
           [0..<length matrixSignals])
       [0..<length matrixSignals] s"

subsection \<open>RISK PREDICTION ENGINE\<close>

text \<open>\<^verbatim>\<open>state.correlations[key] || 0\<close>: a missing key reads as 0.\<close>

definition corr_or_0 :: "app_state \<Rightarrow> string \<Rightarrow> real" where
  "corr_or_0 s key = (case correlations s key of None \<Rightarrow> 0 | Some c \<Rightarrow> c)"

text \<open>\<^verbatim>\<open>Math.abs(v.value - v.baseline) / v.baseline\<close>. The source does not guard the
  division. With a baseline of 0 JavaScript computes \<^verbatim>\<open>Infinity\<close> or \<^verbatim>\<open>NaN\<close>, which the
  model's numbers do not have (there \<open>x / 0 = 0\<close>): what is proved of the risk scores
  is proved for baselines other than 0.\<close>

definition deviation :: "app_state \<Rightarrow> signal \<Rightarrow> real" where
  "deviation s sig =
     \<bar>value_v (vitals s sig) - baseline (vitals s sig)\<bar> / baseline (vitals s sig)"

text \<open>The four local variables of \<^verbatim>\<open>updateRisks\<close> after their \<^verbatim>\<open>clamp\<close>.\<close>

definition cardioRisk :: "app_state \<Rightarrow> real" where
  "cardioRisk s =
     (let hrDev = deviation s Hr; bpDev = deviation s Bp_sys; hrvDev = deviation s Hrv;
          hrBpCorr = \<bar>corr_or_0 s ''hr_bp_sys''\<bar>
      in clamp ((hrDev * 30 + bpDev * 25 + hrvDev * 25 + hrBpCorr * 20) * 100) 3 95)"

definition respRisk :: "app_state \<Rightarrow> real" where
  "respRisk s =
     (let hrDev = deviation s Hr; spo2Dev = deviation s Spo2; rrDev = deviation s Rr;
          spo2RrCorr = \<bar>corr_or_0 s ''spo2_rr''\<bar>
      in clamp ((spo2Dev * 35 + rrDev * 30 + hrDev * 15 + spo2RrCorr * 20) * 100) 2 95)"

definition metaRisk :: "app_state \<Rightarrow> real" where
  "metaRisk s =
     (let hrDev = deviation s Hr; bpDev = deviation s Bp_sys; tempDev = deviation s Temp;
          tempHrCorr = \<bar>corr_or_0 s ''temp_hr''\<bar>
      in clamp ((tempDev * 30 + hrDev * 25 + bpDev * 20 + tempHrCorr * 25) * 100) 3 95)"

definition apneaRisk :: "app_state \<Rightarrow> real" where
  "apneaRisk s =
     (let spo2Dev = deviation s Spo2; rrDev = deviation s Rr; hrvDev = deviation s Hrv;
          spo2HrvCorr = \<bar>corr_or_0 s ''spo2_hrv''\<bar>
      in clamp ((spo2Dev * 35 + rrDev * 25 + hrvDev * 20 + spo2HrvCorr * 20) * 100) 1 95)"

definition updateRisks :: "app_state \<Rightarrow> app_state" where
  "updateRisks s =
     (let hrDev = deviation s Hr; bpDev = deviation s Bp_sys; hrvDev = deviation s Hrv;
          hrBpCorr = \<bar>corr_or_0 s ''hr_bp_sys''\<bar>;
          cardio = (risks s Cardio)
            \<lparr>target := Math_round (cardioRisk s),
             factors :=
               [''HR-BP Sync: '' @ (if hrBpCorr > 0.5 then ''Elevated'' else ''Normal''),
                ''HRV Stability: '' @
                  (if hrvDev < 0.15 then ''Good'' else if hrvDev < 0.3 then ''Fair'' else ''Poor'')]\<rparr>;
          spo2Dev = deviation s Spo2; rrDev = deviation s Rr;
          spo2RrCorr = \<bar>corr_or_0 s ''spo2_rr''\<bar>;
          respiratory = (risks s Respiratory)
            \<lparr>target := Math_round (respRisk s),
             factors :=
               [''SpO2-RR Sync: '' @ (if spo2RrCorr > 0.5 then ''Diverging'' else ''Normal''),
                ''Breathing Pattern: '' @ (if rrDev < 0.15 then ''Regular'' else ''Irregular'')]\<rparr>;
          tempDev = deviation s Temp;
          tempHrCorr = \<bar>corr_or_0 s ''temp_hr''\<bar>;
          metabolic = (risks s Metabolic)
            \<lparr>target := Math_round (metaRisk s),
             factors :=
               [''Temp-HR Pattern: '' @ (if tempHrCorr > 0.5 then ''Coupling'' else ''Normal''),
                ''Circadian Rhythm: '' @ (if tempDev < 0.005 then ''Aligned'' else ''Shifted'')]\<rparr>;
          apnea = (risks s Apnea)
            \<lparr>target := Math_round (apneaRisk s),
             factors :=
               [''Night SpO2 Dips: '' @ (if spo2Dev > 0.02 then ''Detected'' else ''None''),
                ''RR Irregularity: '' @ (if rrDev < 0.1 then ''Low'' else ''Moderate'')]\<rparr>
      in s\<lparr>risks := (risks s)(Cardio := cardio, Respiratory := respiratory,
                                Metabolic := metabolic, Apnea := apnea)\<rparr>)"

subsection \<open>RISK GAUGES\<close>

text \<open>The assignment \<^verbatim>\<open>risk.value = lerp(risk.value, risk.target, 0.1)\<close> of
  \<^verbatim>\<open>renderRisks\<close>, for each entry of \<^verbatim>\<open>state.risks\<close>; the rest of the function draws.\<close>

definition renderRisks :: "app_state \<Rightarrow> app_state" where
  "renderRisks s =
     fold (\<lambda>key st.
             st\<lparr>risks := (risks st)
                  (key := (risks st key)\<lparr>value_r := lerp (value_r (risks st key)) (target (risks st key)) 0.1\<rparr>)\<rparr>)
       [Cardio, Respiratory, Metabolic, Apnea] s"

subsection \<open>The tick\<close>

definition trendSignals :: "signal list" where
  "trendSignals = [Hr, Spo2, Bp_sys, Bp_dia, Rr, Hrv]"

text \<open>The body of \<^verbatim>\<open>updateAllVitals\<close>, in the order of the source. Its three first
  blocks are named: the check of the trigger, the \<^verbatim>\<open>forEach\<close> over \<^verbatim>\<open>CONFIG.signals\<close>,
  and the \<^verbatim>\<open>forEach\<close> that stores the trend data.\<close>

definition checkTrigger :: "env \<Rightarrow> app_state \<Rightarrow> app_state" where
  "checkTrigger e s =
     (if \<not> anomalyMode s \<and> tick s \<ge> nextAnomalyTick s then
        addAnomaly e ''active'' active_title active_description active_tags ''medium''
          (s\<lparr>anomalyMode := True, anomalyModeStart := tick s\<rparr>)
      else s)"

definition generateVitals :: "(signal \<Rightarrow> env) \<Rightarrow> app_state \<Rightarrow> app_state" where
  "generateVitals es s = fold (\<lambda>sig. generateVital sig (es sig)) signals s"

definition storeTrend :: "app_state \<Rightarrow> app_state" where
  "storeTrend s =
     fold (\<lambda>sig st.
             let pushed = trendData st sig @ [value_v (vitals st sig)]
             in st\<lparr>trendData := (trendData st)
                  (sig := if length pushed > trendPoints then tl pushed else pushed)\<rparr>)
       trendSignals s"

definition updateAllVitals :: "tick_env \<Rightarrow> app_state \<Rightarrow> app_state" where
  "updateAllVitals te s =
     (let s1 = s\<lparr>tick := tick s + 1\<rparr>;
          s2 = checkTrigger (trigger_env te) s1;
          s3 = generateVitals (signal_env te) s2;
          s4 = storeTrend s3;
          s5 = updateCorrelations s4;
          s6 = updateRisks s5
      in renderRisks s6)"

text \<open>\<^verbatim>\<open>setInterval(updateAllVitals, ...)\<close>: one call for each tick, each with what the
  platform delivers during it.\<close>

fun run_ticks :: "tick_env list \<Rightarrow> app_state \<Rightarrow> app_state" where
  "run_ticks [] s = s"
| "run_ticks (te # tes) s = run_ticks tes (updateAllVitals te s)"

subsection \<open>Sequences of appends\<close>

text \<open>An append to the log: the platform's reading and the five arguments of one call of
  \<^verbatim>\<open>addAnomaly\<close>.\<close>

type_synonym append_req = "env \<times> string \<times> string \<times> string \<times> string list \<times> string"

text \<open>The object that the call puts at the front of \<^verbatim>\<open>state.anomalies\<close>.\<close>

fun event_of :: "append_req \<Rightarrow> anomaly" where
  "event_of (e, status', title', description', tags', severity') =
     \<lparr>id_a = date_now e, time_a = time_now e, title = title', description = description',
      tags = tags', severity = severity', status = status'\<rparr>"

fun append_all :: "append_req list \<Rightarrow> app_state \<Rightarrow> app_state" where
  "append_all [] s = s"
| "append_all ((e, status', title', description', tags', severity') # rs) s =
     append_all rs (addAnomaly e status' title' description' tags' severity' s)"

subsection \<open>A sample reading of the platform\<close>

text \<open>Used to run the definitions on concrete inputs. With these draws
  \<open>gaussRandom\<close> is \<open>sqrt (2 * ln 2) * cos (pi / 2) = 0\<close>.\<close>

definition sample_env :: env where
  "sample_env = \<lparr>noise_u = 1 / 2, noise_v = 1 / 4, drift_u = 1 / 2, drift_v = 1 / 4,
     next_rnd = 1 / 2, date_now = 0, time_now = ''00:00:00''\<rparr>"

definition sample_tick_env :: tick_env where
  "sample_tick_env = \<lparr>trigger_env = sample_env, signal_env = (\<lambda>_. sample_env)\<rparr>"

subsection \<open>Notions used to state the properties of the correlation\<close>





subsection \<open>Names for what one call of the generator computes\<close>

text \<open>\<^verbatim>\<open>Math.round(newVal * 10) / 10\<close>.\<close>

definition round1 :: "real \<Rightarrow> real" where
  "round1 x = Math_round (x * 10) / 10"

text \<open>\<^verbatim>\<open>a.push(x); if (a.length > cap) a.shift()\<close>.\<close>

definition push_capped :: "nat \<Rightarrow> 'a \<Rightarrow> 'a list \<Rightarrow> 'a list" where
  "push_capped cap x a = (if length (a @ [x]) > cap then tl (a @ [x]) else a @ [x])"

text \<open>The value of \<^verbatim>\<open>newVal\<close> after line 90 of \<^verbatim>\<open>generateVital\<close>, for the vital \<open>v\<close> at
  tick \<open>t\<close>: the old value, the reversion, a tenth of the circadian term and the noise.\<close>

definition newVal_base :: "vital \<Rightarrow> env \<Rightarrow> int \<Rightarrow> real" where
  "newVal_base v e t =
     value_v v + (baseline v - value_v v) * 0.08 + sin (of_int t * 0.02) * variance v * 0.5 * 0.1 +
     gaussRandom (noise_u e) (noise_v e) * variance v"

text \<open>The same with the drift of the anomaly mode, started at tick \<open>t0\<close>, on top.\<close>

definition newVal_drifted :: "signal \<Rightarrow> vital \<Rightarrow> env \<Rightarrow> int \<Rightarrow> int \<Rightarrow> real" where
  "newVal_drifted sig v e t t0 =
     anomaly_drift sig (min (of_int (t - t0) / 15) 1) (gaussRandom (drift_u e) (drift_v e))
       (newVal_base v e t)"

text \<open>The vital that the call stores, from the value of \<^verbatim>\<open>newVal\<close> before the clamp.\<close>

definition stored_vital :: "vital \<Rightarrow> real \<Rightarrow> vital" where
  "stored_vital v x =
     v\<lparr>value_v := round1 (clamp x (min_v v) (max_v v)),
       history := push_capped chartPoints (round1 (clamp x (min_v v) (max_v v))) (history v)\<rparr>"

text \<open>The event that the end of an episode appends.\<close>

definition resolved_event :: "env \<Rightarrow> anomaly" where
  "resolved_event e =
     event_of (e, ''auto-resolved'', resolved_title, resolved_description, resolved_tags, ''low'')"

text \<open>The event that the trigger appends.\<close>

definition active_event :: "env \<Rightarrow> anomaly" where
  "active_event e =
     event_of (e, ''active'', active_title, active_description, active_tags, ''medium'')"

subsection \<open>Names used to state the properties of the risk engine\<close>


text \<open>The initial state with a heart rate of 72.1 instead of 72.\<close>

definition example_state :: app_state where
  "example_state = state\<lparr>vitals := (vitals state)(Hr := (vitals state Hr)\<lparr>value_v := 72.1\<rparr>)\<rparr>"

subsection \<open>Names used to state the properties of the signals\<close>

text \<open>A multiple of 0.1, as every value is that \<^verbatim>\<open>generateVital\<close> has stored.\<close>

definition tenth :: "real \<Rightarrow> bool" where
  "tenth x \<longleftrightarrow> of_int \<lfloor>x * 10\<rfloor> = x * 10"

text \<open>Bounds in the right order that are multiples of 0.1, as in the initial state.\<close>

definition bounds_ok :: "vital \<Rightarrow> bool" where
  "bounds_ok v \<longleftrightarrow> min_v v \<le> max_v v \<and> tenth (min_v v) \<and> tenth (max_v v)"

text \<open>The distance of a signal from its baseline.\<close>

definition distance :: "vital \<Rightarrow> real" where
  "distance v = \<bar>value_v v - baseline v\<bar>"

text \<open>The initial state with every variance 0 and a heart rate of \<open>x\<close>.\<close>

definition quiet_state :: "real \<Rightarrow> app_state" where
  "quiet_state x =
     state\<lparr>vitals := (\<lambda>sig. (initial_vital sig)\<lparr>variance := 0\<rparr>)
       (Hr := (initial_vital Hr)\<lparr>variance := 0, value_v := x\<rparr>)\<rparr>"

text \<open>A signal without noise whose value and baseline are multiples of 0.1 inside the
  bounds.\<close>

definition quiet :: "vital \<Rightarrow> bool" where
  "quiet v \<longleftrightarrow>
     variance v = 0 \<and> tenth (value_v v) \<and> tenth (baseline v) \<and>
     min_v v \<le> value_v v \<and> value_v v \<le> max_v v \<and>
     min_v v \<le> baseline v \<and> baseline v \<le> max_v v"

subsection \<open>INITIALIZATION\<close>

text \<open>What \<^verbatim>\<open>init\<close> reads from the platform: the draws of the \<^verbatim>\<open>gaussRandom()\<close> of each
  sample of the two pre-fill loops (in the fields \<open>noise_u\<close>, \<open>noise_v\<close>), and the clock
  for the informational event.\<close>

record init_env =
  history_env :: "signal \<Rightarrow> nat \<Rightarrow> env"
  trend_env :: "signal \<Rightarrow> nat \<Rightarrow> env"
  info_env :: env

definition info_title :: string where
  "info_title = ''System Initialized '' @ [CHR 0xE2, CHR 0x80, CHR 0x94] @ '' Correlation Monitoring Active''"

definition info_description :: string where
  "info_description =
     ''Multi-signal correlation engine is online. Monitoring 6 physiological signals with real-time cross-correlation analysis. Early-stage risk prediction active.''"

definition info_tags :: "string list" where
  "info_tags = [''System'', ''All Signals'', ''Baseline Set'']"

text \<open>The two pre-fill loops. The source holds \<^verbatim>\<open>v = state.vitals[signal]\<close> by reference and
  pushes to its history; the model reads the vital again in each round.\<close>

definition prefillHistory :: "(signal \<Rightarrow> nat \<Rightarrow> env) \<Rightarrow> app_state \<Rightarrow> app_state" where
  "prefillHistory es s =
     fold (\<lambda>sig. fold (\<lambda>i st.
             let v = vitals st sig;
                 noise = gaussRandom (noise_u (es sig i)) (noise_v (es sig i)) * variance v * 0.5;
                 val = clamp (baseline v + noise) (min_v v) (max_v v)
             in st\<lparr>vitals := (vitals st)
                  (sig := v\<lparr>history := history v @
                     [if sig = Temp \<or> sig = Spo2 then Math_round (val * 10) / 10
                      else Math_round (val * 10) / 10]\<rparr>)\<rparr>)
           [0..<15])
       signals s"

definition prefillTrend :: "(signal \<Rightarrow> nat \<Rightarrow> env) \<Rightarrow> app_state \<Rightarrow> app_state" where
  "prefillTrend es s =
     fold (\<lambda>sig. fold (\<lambda>i st.
             let v = vitals st sig;
                 noise = gaussRandom (noise_u (es sig i)) (noise_v (es sig i)) * variance v * 0.5
             in st\<lparr>trendData := (trendData st)
                  (sig := trendData st sig @ [clamp (baseline v + noise) (min_v v) (max_v v)])\<rparr>)
           [0..<20])
       trendSignals s"

text \<open>\<^verbatim>\<open>init\<close>, without the calls that build or draw the page. \<^verbatim>\<open>init()\<close> runs once, on the
  literal \<^verbatim>\<open>state\<close>, and then starts the ticks.\<close>

definition init :: "init_env \<Rightarrow> app_state \<Rightarrow> app_state" where
  "init ie s =
     (let s1 = prefillHistory (history_env ie) s;
          s2 = prefillTrend (trend_env ie) s1;
          s3 = updateCorrelations s2;
          s4 = updateRisks s3;
          s5 = renderRisks s4
      in addAnomaly (info_env ie) ''info'' info_title info_description info_tags ''low'' s5)"

definition sample_init_env :: init_env where
  "sample_init_env =
     \<lparr>history_env = (\<lambda>_ _. sample_env), trend_env = (\<lambda>_ _. sample_env), info_env = sample_env\<rparr>"

text \<open>The event that \<^verbatim>\<open>init\<close> appends.\<close>

definition info_event :: "env \<Rightarrow> anomaly" where
  "info_event e = event_of (e, ''info'', info_title, info_description, info_tags, ''low'')"

section \<open>The event log\<close>

lemma addAnomaly_anomalies:
  "anomalies (addAnomaly e st ti de ta se s) =
     (let unshifted = \<lparr>id_a = date_now e, time_a = time_now e, title = ti, description = de,
                        tags = ta, severity = se, status = st\<rparr> # anomalies s
      in if length unshifted > 15 then butlast unshifted else unshifted)"
  by (simp add: addAnomaly_def Let_def)

lemma take_append_take: "take n (xs @ take n ys) = take n (xs @ ys)"
  by (simp add: min_def)

lemma addAnomaly_take:
  "anomalies (addAnomaly e st ti de ta se s) = take 15 (event_of (e, st, ti, de, ta, se) # anomalies s)"
  if "length (anomalies s) \<le> 15"
proof (cases "length (anomalies s) = 15")
  case True
  then show ?thesis
    by (simp add: addAnomaly_anomalies Let_def butlast_conv_take)
next
  case False
  with that show ?thesis
    by (simp add: addAnomaly_anomalies Let_def)
qed

lemma addAnomaly_length: "length (anomalies s) \<le> 15 \<Longrightarrow> length (anomalies (addAnomaly e st ti de ta se s)) \<le> 15"
  by (simp add: addAnomaly_take)

lemma addAnomaly_stats:
  "anomalyStats (addAnomaly e st ti de ta se s) =
   (let log = anomalies (addAnomaly e st ti de ta se s) in
     \<lparr>total = length log,
      critical = length (filter (\<lambda>a. severity a = ''high'' \<or> status a = ''active'') log),
      resolved = length (filter (\<lambda>a. status a = ''auto-resolved'') log)\<rparr>)"
  by (simp add: addAnomaly_def Let_def)

lemma append_all_take:
  "length (anomalies s) \<le> 15 \<Longrightarrow>
   anomalies (append_all rs s) = take 15 (rev (map event_of rs) @ anomalies s)"
proof (induction rs arbitrary: s)
  case Nil
  then show ?case by simp
next
  case (Cons r rs)
  obtain e st ti de ta se where r: "r = (e, st, ti, de, ta, se)" by (cases r)
  have len: "length (anomalies (addAnomaly e st ti de ta se s)) \<le> 15"
    using Cons.prems by (rule addAnomaly_length)
  have "anomalies (append_all (r # rs) s) =
        take 15 (rev (map event_of rs) @ take 15 (event_of r # anomalies s))"
    using Cons.IH [OF len] Cons.prems by (simp only: r append_all.simps addAnomaly_take)
  also have "\<dots> = take 15 (rev (map event_of rs) @ event_of r # anomalies s)"
    by (rule take_append_take)
  finally show ?case by simp
qed

lemma append_all_snoc:
  "append_all (rs @ [(e, st, ti, de, ta, se)]) s = addAnomaly e st ti de ta se (append_all rs s)"
  by (induction rs arbitrary: s) auto

section \<open>The correlation engine\<close>

subsection \<open>The matrix\<close>





lemma fold_fold_product:
  "fold (\<lambda>i. fold (G i) js) is m = fold (\<lambda>p. G (fst p) (snd p)) (List.product is js) m"
  by (induction "is" arbitrary: m) (simp_all add: fold_map comp_def)

lemma fold_correlations_upd:
  "fold (\<lambda>j st. st\<lparr>correlations := (correlations st)(K j \<mapsto> V (vitals st) j)\<rparr>) js st =
   st\<lparr>correlations := fold (\<lambda>j m. m(K j \<mapsto> V (vitals st) j)) js (correlations st)\<rparr>"
  by (induction js arbitrary: st) simp_all

lemma updateCorrelations_step:
  "(\<lambda>st. let key = corr_key a b
         in if i = j then st\<lparr>correlations := (correlations st)(key \<mapsto> 1)\<rparr>
            else
              let x = history (vitals st a); y = history (vitals st b)
              in st\<lparr>correlations := (correlations st)(key \<mapsto> pearsonCorrelation x y)\<rparr>) =
   (\<lambda>st. st\<lparr>correlations := (correlations st)
       (corr_key a b \<mapsto>
          (if i = j then 1 else pearsonCorrelation (history (vitals st a)) (history (vitals st b))))\<rparr>)"
  by (rule ext) (simp add: Let_def)

lemma updateCorrelations_product:
  "updateCorrelations s =
   s\<lparr>correlations :=
       fold (\<lambda>p m. m(corr_key (matrixSignals ! fst p) (matrixSignals ! snd p) \<mapsto>
               (if fst p = snd p then 1
                else pearsonCorrelation (history (vitals s (matrixSignals ! fst p)))
                       (history (vitals s (matrixSignals ! snd p))))))
         (List.product [0..<length matrixSignals] [0..<length matrixSignals]) (correlations s)\<rparr>"
proof -
  let ?K = "\<lambda>p. corr_key (matrixSignals ! fst p) (matrixSignals ! snd p)"
  let ?V = "\<lambda>vs p. if fst p = snd p then (1::real)
              else pearsonCorrelation (history (vs (matrixSignals ! fst p))) (history (vs (matrixSignals ! snd p)))"
  let ?ns = "[0..<length matrixSignals]"
  have "updateCorrelations s =
      fold (\<lambda>i. fold (\<lambda>j st. st\<lparr>correlations := (correlations st)
          (corr_key (matrixSignals ! i) (matrixSignals ! j) \<mapsto>
             (if i = j then 1
              else pearsonCorrelation (history (vitals st (matrixSignals ! i)))
                     (history (vitals st (matrixSignals ! j)))))\<rparr>) ?ns) ?ns s"
    unfolding updateCorrelations_def updateCorrelations_step by simp
  also have "\<dots> = fold (\<lambda>p st. st\<lparr>correlations := (correlations st)(?K p \<mapsto> ?V (vitals st) p)\<rparr>)
      (List.product ?ns ?ns) s"
    by (simp add: fold_fold_product)
  also have "\<dots> = s\<lparr>correlations := fold (\<lambda>p m. m(?K p \<mapsto> ?V (vitals s) p)) (List.product ?ns ?ns) (correlations s)\<rparr>"
    by (rule fold_correlations_upd)
  finally show ?thesis .
qed


lemma updateCorrelations_vitals: "vitals (updateCorrelations s) = vitals s"
  by (simp add: updateCorrelations_product)

subsection \<open>The range of the coefficient\<close>








section \<open>The blocks of a tick\<close>

text \<open>What one call of \<^verbatim>\<open>generateVital\<close> does, in each of its three situations: no
  anomaly, an episode that goes on, and an episode that ends with this call.\<close>

lemma generateVital_idle:
  "\<not> anomalyMode s \<Longrightarrow>
   generateVital sig e s =
     s\<lparr>vitals := (vitals s)(sig := stored_vital (vitals s sig) (newVal_base (vitals s sig) e (tick s)))\<rparr>"
  by (cases sig)
    (simp_all add: generateVital_def Let_def stored_vital_def newVal_base_def round1_def
      push_capped_def)

lemma generateVital_active:
  "anomalyMode s \<Longrightarrow> \<not> tick s - anomalyModeStart s > 20 \<Longrightarrow>
   generateVital sig e s =
     s\<lparr>vitals := (vitals s)
        (sig := stored_vital (vitals s sig)
           (newVal_drifted sig (vitals s sig) e (tick s) (anomalyModeStart s)))\<rparr>"
  by (cases sig)
    (simp_all add: generateVital_def Let_def stored_vital_def newVal_base_def round1_def
      push_capped_def newVal_drifted_def)

lemma generateVital_resolve:
  "anomalyMode s \<Longrightarrow> tick s - anomalyModeStart s > 20 \<Longrightarrow>
   generateVital sig e s =
     (addAnomaly e ''auto-resolved'' resolved_title resolved_description resolved_tags ''low''
        (s\<lparr>anomalyMode := False\<rparr>))
     \<lparr>nextAnomalyTick := tick s + 25 + \<lfloor>next_rnd e * 20\<rfloor>,
      vitals := (vitals s)
        (sig := stored_vital (vitals s sig)
           (newVal_drifted sig (vitals s sig) e (tick s) (anomalyModeStart s)))\<rparr>"
  by (cases sig)
    (simp_all add: generateVital_def Let_def stored_vital_def newVal_base_def round1_def
      push_capped_def newVal_drifted_def addAnomaly_def)

text \<open>The \<^verbatim>\<open>forEach\<close> over the seven signals, in the same three situations. When the
  episode ends, it ends inside the first call, the one for \<^verbatim>\<open>hr\<close>.\<close>

lemma all_signals_upd:
  "f(Hr := F Hr, Spo2 := F Spo2, Bp_sys := F Bp_sys, Bp_dia := F Bp_dia, Temp := F Temp,
     Rr := F Rr, Hrv := F Hrv) = F"
proof (rule ext)
  fix sig
  show "(f(Hr := F Hr, Spo2 := F Spo2, Bp_sys := F Bp_sys, Bp_dia := F Bp_dia, Temp := F Temp,
     Rr := F Rr, Hrv := F Hrv)) sig = F sig"
    by (cases sig) simp_all
qed

lemma addAnomaly_frame [simp]:
  "vitals (addAnomaly e st ti de ta se s) = vitals s"
  "correlations (addAnomaly e st ti de ta se s) = correlations s"
  "risks (addAnomaly e st ti de ta se s) = risks s"
  "trendData (addAnomaly e st ti de ta se s) = trendData s"
  "tick (addAnomaly e st ti de ta se s) = tick s"
  "anomalyMode (addAnomaly e st ti de ta se s) = anomalyMode s"
  "anomalyModeStart (addAnomaly e st ti de ta se s) = anomalyModeStart s"
  "nextAnomalyTick (addAnomaly e st ti de ta se s) = nextAnomalyTick s"
  by (simp_all add: addAnomaly_def Let_def)

lemma generateVitals_idle:
  assumes "\<not> anomalyMode s"
  shows "generateVitals es s =
     s\<lparr>vitals := \<lambda>sig. stored_vital (vitals s sig) (newVal_base (vitals s sig) (es sig) (tick s))\<rparr>"
  using assms
    all_signals_upd [of "vitals s"
      "\<lambda>sig. stored_vital (vitals s sig) (newVal_base (vitals s sig) (es sig) (tick s))"]
  by (simp add: generateVitals_def signals_def generateVital_idle)

lemma generateVitals_active:
  assumes "anomalyMode s" "\<not> tick s - anomalyModeStart s > 20"
  shows "generateVitals es s =
     s\<lparr>vitals := \<lambda>sig. stored_vital (vitals s sig)
          (newVal_drifted sig (vitals s sig) (es sig) (tick s) (anomalyModeStart s))\<rparr>"
  using assms
    all_signals_upd [of "vitals s"
      "\<lambda>sig. stored_vital (vitals s sig)
          (newVal_drifted sig (vitals s sig) (es sig) (tick s) (anomalyModeStart s))"]
  by (simp add: generateVitals_def signals_def generateVital_active)

lemma generateVitals_resolve:
  assumes "anomalyMode s" "tick s - anomalyModeStart s > 20"
  shows "generateVitals es s =
     (addAnomaly (es Hr) ''auto-resolved'' resolved_title resolved_description resolved_tags
        ''low'' (s\<lparr>anomalyMode := False\<rparr>))
     \<lparr>nextAnomalyTick := tick s + 25 + \<lfloor>next_rnd (es Hr) * 20\<rfloor>,
      vitals := \<lambda>sig. stored_vital (vitals s sig)
          (if sig = Hr then newVal_drifted Hr (vitals s Hr) (es Hr) (tick s) (anomalyModeStart s)
           else newVal_base (vitals s sig) (es sig) (tick s))\<rparr>"
  using assms
    all_signals_upd [of "vitals s"
      "\<lambda>sig. stored_vital (vitals s sig)
          (if sig = Hr then newVal_drifted Hr (vitals s Hr) (es Hr) (tick s) (anomalyModeStart s)
           else newVal_base (vitals s sig) (es sig) (tick s))"]
  by (simp add: generateVitals_def signals_def generateVital_resolve generateVital_idle)

text \<open>The other blocks of the tick.\<close>

lemma storeTrend_eq:
  "storeTrend s =
     s\<lparr>trendData := \<lambda>sig. if sig \<in> set trendSignals
          then push_capped trendPoints (value_v (vitals s sig)) (trendData s sig)
          else trendData s sig\<rparr>"
proof -
  have "(trendData s)
      (Hr := push_capped trendPoints (value_v (vitals s Hr)) (trendData s Hr),
       Spo2 := push_capped trendPoints (value_v (vitals s Spo2)) (trendData s Spo2),
       Bp_sys := push_capped trendPoints (value_v (vitals s Bp_sys)) (trendData s Bp_sys),
       Bp_dia := push_capped trendPoints (value_v (vitals s Bp_dia)) (trendData s Bp_dia),
       Rr := push_capped trendPoints (value_v (vitals s Rr)) (trendData s Rr),
       Hrv := push_capped trendPoints (value_v (vitals s Hrv)) (trendData s Hrv)) =
     (\<lambda>sig. if sig \<in> set trendSignals
          then push_capped trendPoints (value_v (vitals s sig)) (trendData s sig)
          else trendData s sig)"
    (is "?upd = ?all")
  proof (rule ext)
    fix sig show "?upd sig = ?all sig"
      by (cases sig) (simp_all add: trendSignals_def)
  qed
  moreover have "storeTrend s = s\<lparr>trendData := ?upd\<rparr>"
    by (simp add: storeTrend_def trendSignals_def Let_def push_capped_def)
  ultimately show ?thesis by simp
qed

lemma updateCorrelations_frame:
  "updateCorrelations s = s\<lparr>correlations := correlations (updateCorrelations s)\<rparr>"
  by (simp add: updateCorrelations_product)

lemma updateRisks_frame:
  "updateRisks s = s\<lparr>risks := risks (updateRisks s)\<rparr>"
  by (simp add: updateRisks_def Let_def)

lemma renderRisks_eq:
  "renderRisks s =
     s\<lparr>risks := \<lambda>key. (risks s key)\<lparr>value_r := lerp (value_r (risks s key)) (target (risks s key)) 0.1\<rparr>\<rparr>"
proof -
  have "(risks s)
      (Cardio := (risks s Cardio)\<lparr>value_r := lerp (value_r (risks s Cardio)) (target (risks s Cardio)) 0.1\<rparr>,
       Respiratory := (risks s Respiratory)\<lparr>value_r := lerp (value_r (risks s Respiratory)) (target (risks s Respiratory)) 0.1\<rparr>,
       Metabolic := (risks s Metabolic)\<lparr>value_r := lerp (value_r (risks s Metabolic)) (target (risks s Metabolic)) 0.1\<rparr>,
       Apnea := (risks s Apnea)\<lparr>value_r := lerp (value_r (risks s Apnea)) (target (risks s Apnea)) 0.1\<rparr>) =
     (\<lambda>key. (risks s key)\<lparr>value_r := lerp (value_r (risks s key)) (target (risks s key)) 0.1\<rparr>)"
    (is "?upd = ?all")
  proof (rule ext)
    fix key show "?upd key = ?all key" by (cases key) simp_all
  qed
  moreover have "renderRisks s = s\<lparr>risks := ?upd\<rparr>"
    by (simp add: renderRisks_def)
  ultimately show ?thesis by simp
qed

lemma updateRisks_risks:
  "risks (updateRisks s) key =
     (risks s key)\<lparr>target := Math_round (case key of Cardio \<Rightarrow> cardioRisk s
        | Respiratory \<Rightarrow> respRisk s | Metabolic \<Rightarrow> metaRisk s | Apnea \<Rightarrow> apneaRisk s),
      factors := factors (risks (updateRisks s) key)\<rparr>"
  by (cases key) (simp_all add: updateRisks_def Let_def)

text \<open>The fields that each block leaves alone.\<close>

lemma updateAllVitals_blocks:
  "updateAllVitals te s =
     renderRisks (updateRisks (updateCorrelations (storeTrend
       (generateVitals (signal_env te) (checkTrigger (trigger_env te) (s\<lparr>tick := tick s + 1\<rparr>))))))"
  by (simp add: updateAllVitals_def Let_def)

lemma generateVitals_cases:
  obtains (idle) "\<not> anomalyMode s"
  | (active) "anomalyMode s" "\<not> tick s - anomalyModeStart s > 20"
  | (resolve) "anomalyMode s" "tick s - anomalyModeStart s > 20"
  by blast

lemma generateVitals_frame [simp]:
  "risks (generateVitals es s) = risks s"
  "correlations (generateVitals es s) = correlations s"
  "trendData (generateVitals es s) = trendData s"
  "tick (generateVitals es s) = tick s"
  "anomalyModeStart (generateVitals es s) = anomalyModeStart s"
  by (cases s rule: generateVitals_cases;
      simp add: generateVitals_idle generateVitals_active generateVitals_resolve)+

lemma checkTrigger_frame [simp]:
  "vitals (checkTrigger e s) = vitals s"
  "risks (checkTrigger e s) = risks s"
  "correlations (checkTrigger e s) = correlations s"
  "trendData (checkTrigger e s) = trendData s"
  "tick (checkTrigger e s) = tick s"
  "nextAnomalyTick (checkTrigger e s) = nextAnomalyTick s"
  by (simp_all add: checkTrigger_def)

lemma storeTrend_frame [simp]:
  "vitals (storeTrend s) = vitals s"
  "risks (storeTrend s) = risks s"
  "correlations (storeTrend s) = correlations s"
  "anomalies (storeTrend s) = anomalies s"
  "anomalyStats (storeTrend s) = anomalyStats s"
  "tick (storeTrend s) = tick s"
  "anomalyMode (storeTrend s) = anomalyMode s"
  "anomalyModeStart (storeTrend s) = anomalyModeStart s"
  "nextAnomalyTick (storeTrend s) = nextAnomalyTick s"
  by (simp_all add: storeTrend_eq)

lemma updateCorrelations_frame' [simp]:
  "vitals (updateCorrelations s) = vitals s"
  "risks (updateCorrelations s) = risks s"
  "trendData (updateCorrelations s) = trendData s"
  "anomalies (updateCorrelations s) = anomalies s"
  "anomalyStats (updateCorrelations s) = anomalyStats s"
  "tick (updateCorrelations s) = tick s"
  "anomalyMode (updateCorrelations s) = anomalyMode s"
  "anomalyModeStart (updateCorrelations s) = anomalyModeStart s"
  "nextAnomalyTick (updateCorrelations s) = nextAnomalyTick s"
  by (simp_all add: updateCorrelations_product)

lemma updateRisks_frame' [simp]:
  "vitals (updateRisks s) = vitals s"
  "correlations (updateRisks s) = correlations s"
  "trendData (updateRisks s) = trendData s"
  "anomalies (updateRisks s) = anomalies s"
  "anomalyStats (updateRisks s) = anomalyStats s"
  "tick (updateRisks s) = tick s"
  "anomalyMode (updateRisks s) = anomalyMode s"
  "anomalyModeStart (updateRisks s) = anomalyModeStart s"
  "nextAnomalyTick (updateRisks s) = nextAnomalyTick s"
  by (simp_all add: updateRisks_def Let_def)

lemma renderRisks_frame [simp]:
  "vitals (renderRisks s) = vitals s"
  "correlations (renderRisks s) = correlations s"
  "trendData (renderRisks s) = trendData s"
  "anomalies (renderRisks s) = anomalies s"
  "anomalyStats (renderRisks s) = anomalyStats s"
  "tick (renderRisks s) = tick s"
  "anomalyMode (renderRisks s) = anomalyMode s"
  "anomalyModeStart (renderRisks s) = anomalyModeStart s"
  "nextAnomalyTick (renderRisks s) = nextAnomalyTick s"
  by (simp_all add: renderRisks_eq)

section \<open>The risk engine\<close>


lemma updateRisks_value: "value_r (risks (updateRisks s) key) = value_r (risks s key)"
  by (cases key) (simp_all add: updateRisks_def Let_def)

lemma renderRisks_value:
  "value_r (risks (renderRisks s) key) = lerp (value_r (risks s key)) (target (risks s key)) 0.1"
  by (simp add: renderRisks_eq)

lemma renderRisks_target: "target (risks (renderRisks s) key) = target (risks s key)"
  by (simp add: renderRisks_eq)



lemma updateAllVitals_value:
  "value_r (risks (updateAllVitals te s) key) =
     lerp (value_r (risks s key)) (target (risks (updateAllVitals te s) key)) 0.1"
  by (simp add: updateAllVitals_blocks renderRisks_value renderRisks_target updateRisks_value)






subsection \<open>The smoothing\<close>

lemma lerp_tenth: "lerp (T - d) T 0.1 = T - d * 0.9"
  by (simp add: lerp_def field_simps)

lemma lerp_tenth_gap: "v1 = lerp v T 0.1 \<Longrightarrow> T - v1 = (T - v) * 0.9"
  by (simp add: lerp_def field_simps)

lemma renderRisks_funpow_target:
  "target (risks ((renderRisks ^^ n) s) key) = target (risks s key)"
  by (induction n) (simp_all add: renderRisks_target)

lemma renderRisks_funpow_value:
  "value_r (risks ((renderRisks ^^ n) s) key) =
     target (risks s key) - (target (risks s key) - value_r (risks s key)) * 0.9 ^ n"
proof (induction n)
  case 0
  show ?case by simp
next
  case (Suc n)
  have "value_r (risks ((renderRisks ^^ Suc n) s) key) =
      lerp (value_r (risks ((renderRisks ^^ n) s) key)) (target (risks s key)) 0.1"
    by (simp add: renderRisks_value renderRisks_funpow_target)
  also have "\<dots> = target (risks s key) - (target (risks s key) - value_r (risks s key)) * 0.9 ^ Suc n"
    by (simp add: Suc.IH lerp_tenth)
  finally show ?case .
qed

lemma run_ticks_constant_target:
  assumes "\<forall>i\<in>{1..length tes}. target (risks (run_ticks (take i tes) s) key) = T"
  shows "value_r (risks (run_ticks tes s) key) = T - (T - value_r (risks s key)) * 0.9 ^ length tes"
  using assms
proof (induction tes arbitrary: s)
  case Nil
  show ?case by simp
next
  case (Cons te tes)
  let ?s1 = "updateAllVitals te s"
  have first: "target (risks ?s1 key) = T"
    using Cons.prems by (auto dest: bspec [where x = 1])
  have rest: "\<forall>i\<in>{1..length tes}. target (risks (run_ticks (take i tes) ?s1) key) = T"
  proof
    fix i assume "i \<in> {1..length tes}"
    then have "Suc i \<in> {1..length (te # tes)}" by simp
    with Cons.prems have "target (risks (run_ticks (take (Suc i) (te # tes)) s) key) = T"
      by blast
    then show "target (risks (run_ticks (take i tes) ?s1) key) = T" by simp
  qed
  have "value_r (risks ?s1 key) = lerp (value_r (risks s key)) T 0.1"
    using updateAllVitals_value [of te s key] by (simp only: first)
  then have "T - value_r (risks ?s1 key) = (T - value_r (risks s key)) * 0.9"
    by (rule lerp_tenth_gap)
  with Cons.IH [OF rest] show ?case
    by simp
qed

section \<open>The anomaly state machine\<close>

text \<open>The state after the first three blocks of a tick, in the four situations.\<close>

lemma tick_quiet:
  assumes "\<not> anomalyMode s" "tick s + 1 < nextAnomalyTick s"
  shows "generateVitals es (checkTrigger e (s\<lparr>tick := tick s + 1\<rparr>)) =
     s\<lparr>tick := tick s + 1,
       vitals := \<lambda>sig. stored_vital (vitals s sig) (newVal_base (vitals s sig) (es sig) (tick s + 1))\<rparr>"
  using assms by (simp add: checkTrigger_def generateVitals_idle)

lemma tick_trigger:
  assumes "\<not> anomalyMode s" "nextAnomalyTick s \<le> tick s + 1"
  shows "generateVitals es (checkTrigger e (s\<lparr>tick := tick s + 1\<rparr>)) =
     (addAnomaly e ''active'' active_title active_description active_tags ''medium'' s)
     \<lparr>tick := tick s + 1, anomalyMode := True, anomalyModeStart := tick s + 1,
      vitals := \<lambda>sig. stored_vital (vitals s sig)
         (newVal_drifted sig (vitals s sig) (es sig) (tick s + 1) (tick s + 1))\<rparr>"
  using assms by (simp add: checkTrigger_def generateVitals_active) (simp add: addAnomaly_def Let_def)

lemma tick_ongoing:
  assumes "anomalyMode s" "tick s + 1 - anomalyModeStart s \<le> 20"
  shows "generateVitals es (checkTrigger e (s\<lparr>tick := tick s + 1\<rparr>)) =
     s\<lparr>tick := tick s + 1,
       vitals := \<lambda>sig. stored_vital (vitals s sig)
         (newVal_drifted sig (vitals s sig) (es sig) (tick s + 1) (anomalyModeStart s))\<rparr>"
  using assms by (simp add: checkTrigger_def generateVitals_active)

lemma tick_resolve:
  assumes "anomalyMode s" "tick s + 1 - anomalyModeStart s > 20"
  shows "generateVitals es (checkTrigger e (s\<lparr>tick := tick s + 1\<rparr>)) =
     (addAnomaly (es Hr) ''auto-resolved'' resolved_title resolved_description resolved_tags
        ''low'' s)
     \<lparr>tick := tick s + 1, anomalyMode := False,
      nextAnomalyTick := tick s + 1 + 25 + \<lfloor>next_rnd (es Hr) * 20\<rfloor>,
      vitals := \<lambda>sig. stored_vital (vitals s sig)
          (if sig = Hr then newVal_drifted Hr (vitals s Hr) (es Hr) (tick s + 1) (anomalyModeStart s)
           else newVal_base (vitals s sig) (es sig) (tick s + 1))\<rparr>"
  using assms
  by (simp add: checkTrigger_def generateVitals_resolve cong: if_cong)
    (simp add: addAnomaly_def Let_def)

text \<open>What the whole tick leaves of it: the analytics change \<open>correlations\<close> and
  \<open>risks\<close> only, the trend block \<open>trendData\<close> only.\<close>

lemma updateAllVitals_control:
  "tick (updateAllVitals te s) =
     tick (generateVitals (signal_env te) (checkTrigger (trigger_env te) (s\<lparr>tick := tick s + 1\<rparr>)))"
  "anomalyMode (updateAllVitals te s) =
     anomalyMode (generateVitals (signal_env te) (checkTrigger (trigger_env te) (s\<lparr>tick := tick s + 1\<rparr>)))"
  "anomalyModeStart (updateAllVitals te s) =
     anomalyModeStart (generateVitals (signal_env te) (checkTrigger (trigger_env te) (s\<lparr>tick := tick s + 1\<rparr>)))"
  "nextAnomalyTick (updateAllVitals te s) =
     nextAnomalyTick (generateVitals (signal_env te) (checkTrigger (trigger_env te) (s\<lparr>tick := tick s + 1\<rparr>)))"
  "anomalies (updateAllVitals te s) =
     anomalies (generateVitals (signal_env te) (checkTrigger (trigger_env te) (s\<lparr>tick := tick s + 1\<rparr>)))"
  "anomalyStats (updateAllVitals te s) =
     anomalyStats (generateVitals (signal_env te) (checkTrigger (trigger_env te) (s\<lparr>tick := tick s + 1\<rparr>)))"
  "vitals (updateAllVitals te s) =
     vitals (generateVitals (signal_env te) (checkTrigger (trigger_env te) (s\<lparr>tick := tick s + 1\<rparr>)))"
  by (simp_all add: updateAllVitals_blocks)

lemma updateAllVitals_tick [simp]: "tick (updateAllVitals te s) = tick s + 1"
  by (simp add: updateAllVitals_control)

lemma run_ticks_tick [simp]: "tick (run_ticks tes s) = tick s + int (length tes)"
  by (induction tes arbitrary: s) simp_all

lemma run_ticks_snoc: "run_ticks (tes @ [te]) s = updateAllVitals te (run_ticks tes s)"
  by (induction tes arbitrary: s) simp_all

text \<open>The control fields after a tick, in the four situations, and after a run of ticks
  that stays in one of them.\<close>

lemma hd_addAnomaly:
  "hd (anomalies (addAnomaly e st ti de ta se s)) = event_of (e, st, ti, de, ta, se)"
  by (cases "anomalies s") (simp_all add: addAnomaly_anomalies Let_def)

lemma step_quiet:
  assumes "\<not> anomalyMode s" "tick s + 1 < nextAnomalyTick s"
  shows "\<not> anomalyMode (updateAllVitals te s)"
    and "nextAnomalyTick (updateAllVitals te s) = nextAnomalyTick s"
    and "anomalyModeStart (updateAllVitals te s) = anomalyModeStart s"
    and "anomalies (updateAllVitals te s) = anomalies s"
    and "anomalyStats (updateAllVitals te s) = anomalyStats s"
  using assms by (simp_all add: updateAllVitals_control tick_quiet)

lemma step_trigger:
  assumes "\<not> anomalyMode s" "nextAnomalyTick s \<le> tick s + 1"
  shows "anomalyMode (updateAllVitals te s)"
    and "anomalyModeStart (updateAllVitals te s) = tick s + 1"
    and "nextAnomalyTick (updateAllVitals te s) = nextAnomalyTick s"
    and "anomalies (updateAllVitals te s) =
      anomalies (addAnomaly (trigger_env te) ''active'' active_title active_description
        active_tags ''medium'' s)"
    and "anomalyStats (updateAllVitals te s) =
      anomalyStats (addAnomaly (trigger_env te) ''active'' active_title active_description
        active_tags ''medium'' s)"
  using assms by (simp_all add: updateAllVitals_control tick_trigger)

lemma step_ongoing:
  assumes "anomalyMode s" "tick s + 1 - anomalyModeStart s \<le> 20"
  shows "anomalyMode (updateAllVitals te s)"
    and "anomalyModeStart (updateAllVitals te s) = anomalyModeStart s"
    and "nextAnomalyTick (updateAllVitals te s) = nextAnomalyTick s"
    and "anomalies (updateAllVitals te s) = anomalies s"
    and "anomalyStats (updateAllVitals te s) = anomalyStats s"
  using assms by (simp_all add: updateAllVitals_control tick_ongoing)

lemma step_resolve:
  assumes "anomalyMode s" "tick s + 1 - anomalyModeStart s > 20"
  shows "\<not> anomalyMode (updateAllVitals te s)"
    and "nextAnomalyTick (updateAllVitals te s) =
      tick s + 1 + 25 + \<lfloor>next_rnd (signal_env te Hr) * 20\<rfloor>"
    and "anomalies (updateAllVitals te s) =
      anomalies (addAnomaly (signal_env te Hr) ''auto-resolved'' resolved_title
        resolved_description resolved_tags ''low'' s)"
    and "anomalyStats (updateAllVitals te s) =
      anomalyStats (addAnomaly (signal_env te Hr) ''auto-resolved'' resolved_title
        resolved_description resolved_tags ''low'' s)"
  using assms by (simp_all add: updateAllVitals_control tick_resolve)

lemma run_quiet:
  assumes "\<not> anomalyMode s" "tick s + int (length tes) < nextAnomalyTick s"
  shows "\<not> anomalyMode (run_ticks tes s) \<and> nextAnomalyTick (run_ticks tes s) = nextAnomalyTick s \<and>
         anomalies (run_ticks tes s) = anomalies s"
  using assms
proof (induction tes arbitrary: s)
  case Nil
  then show ?case by simp
next
  case (Cons te tes)
  have now: "tick s + 1 < nextAnomalyTick s"
    using Cons.prems(2) by simp
  note one = step_quiet [OF Cons.prems(1) now, of te]
  have "tick (updateAllVitals te s) + int (length tes) < nextAnomalyTick (updateAllVitals te s)"
    using Cons.prems(2) one(2) by simp
  from Cons.IH [OF one(1) this] one show ?case
    by simp
qed

lemma run_ongoing:
  assumes "anomalyMode s" "tick s + int (length tes) - anomalyModeStart s \<le> 20"
  shows "anomalyMode (run_ticks tes s) \<and> anomalyModeStart (run_ticks tes s) = anomalyModeStart s \<and>
         anomalies (run_ticks tes s) = anomalies s"
  using assms
proof (induction tes arbitrary: s)
  case Nil
  then show ?case by simp
next
  case (Cons te tes)
  have now: "tick s + 1 - anomalyModeStart s \<le> 20"
    using Cons.prems(2) by simp
  note one = step_ongoing [OF Cons.prems(1) now, of te]
  have "tick (updateAllVitals te s) + int (length tes) - anomalyModeStart (updateAllVitals te s) \<le> 20"
    using Cons.prems(2) one(2) by simp
  from Cons.IH [OF one(1) this] one show ?case
    by simp
qed

lemma newVal_drifted_Hr_full:
  "t - t0 > 20 \<Longrightarrow>
   newVal_drifted Hr v e t t0 =
     newVal_base v e t + (1 * 8 + gaussRandom (drift_u e) (drift_v e) * 2)"
  by (simp add: newVal_drifted_def min_def)

section \<open>The signal generator\<close>

subsection \<open>Rounding to one decimal place\<close>

lemma tenthE:
  assumes "tenth x"
  obtains k :: int where "x = of_int k / 10"
proof
  have "x * 10 = of_int \<lfloor>x * 10\<rfloor>"
    using assms unfolding tenth_def by (rule sym)
  then show "x = of_int \<lfloor>x * 10\<rfloor> / 10"
    by linarith
qed

lemma tenth_of_int: "tenth (of_int k / 10)"
  by (simp add: tenth_def)

lemma round1_tenth: "tenth (round1 x)"
  by (simp add: round1_def Math_round_def tenth_of_int)

lemma round1_range:
  assumes "tenth lo" "tenth hi" "lo \<le> x" "x \<le> hi"
  shows "lo \<le> round1 x \<and> round1 x \<le> hi"
proof -
  obtain a where a: "lo = of_int a / 10" using assms(1) by (rule tenthE)
  obtain b where b: "hi = of_int b / 10" using assms(2) by (rule tenthE)
  have "of_int a \<le> x * 10 + 1 / 2"
    using assms(3) by (simp add: a)
  then have lower: "a \<le> \<lfloor>x * 10 + 1 / 2\<rfloor>"
    by (simp add: le_floor_iff)
  have "x * 10 + 1 / 2 < of_int (b + 1)"
    using assms(4) by (simp add: b)
  then have "\<lfloor>x * 10 + 1 / 2\<rfloor> < b + 1"
    by (simp only: floor_less_iff)
  then have upper: "\<lfloor>x * 10 + 1 / 2\<rfloor> \<le> b"
    by simp
  from lower upper show ?thesis
    by (simp add: round1_def Math_round_def a b)
qed

lemma clamp_range: "lo \<le> hi \<Longrightarrow> lo \<le> clamp x lo hi \<and> clamp x lo hi \<le> hi"
  by (simp add: clamp_def)

text \<open>one quiet step on tenths\<close>

text \<open>The step of a signal without noise, on multiples of 0.1: with \<open>v = k / 10\<close> and
  \<open>b = m / 10\<close> the stored value is \<open>(k + (4 * (m - k) + 25) div 50) / 10\<close>.\<close>

lemma quiet_round:
  "round1 (of_int k / 10 + (of_int m / 10 - of_int k / 10) * 0.08) =
     of_int (k + (4 * (m - k) + 25) div 50) / 10"
proof -
  have eq: "(of_int k / 10 + (of_int m / 10 - of_int k / 10) * 0.08) * 10 + 1 / 2 =
      of_int k + (of_int (4 * (m - k) + 25) / of_int 50 :: real)"
    by (simp add: field_simps)
  have fl: "\<lfloor>of_int k + (of_int a / of_int 50 :: real)\<rfloor> = k + a div 50" for a
    by (simp only: int_add_floor [symmetric] floor_divide_of_int_eq)
  show ?thesis
    unfolding round1_def Math_round_def eq fl ..
qed

lemma quiet_int:
  fixes d :: int
  shows "\<bar>d - (4 * d + 25) div 50\<bar> \<le> \<bar>d\<bar>"
    and "6 < \<bar>d\<bar> \<Longrightarrow> \<bar>d - (4 * d + 25) div 50\<bar> \<le> \<bar>d\<bar> - 1"
    and "\<bar>d\<bar> \<le> 6 \<Longrightarrow> (4 * d + 25) div 50 = 0"
    and "min 0 d \<le> (4 * d + 25) div 50 \<and> (4 * d + 25) div 50 \<le> max 0 d"
  by linarith+

lemma quiet_step:
  assumes "tenth v" "tenth b"
  shows "tenth (round1 (v + (b - v) * 0.08))"
    and "\<bar>round1 (v + (b - v) * 0.08) - b\<bar> \<le> \<bar>v - b\<bar>"
    and "6 / 10 < \<bar>v - b\<bar> \<Longrightarrow> \<bar>round1 (v + (b - v) * 0.08) - b\<bar> \<le> \<bar>v - b\<bar> - 1 / 10"
    and "\<bar>v - b\<bar> \<le> 6 / 10 \<Longrightarrow> round1 (v + (b - v) * 0.08) = v"
proof -
  obtain k where k: "v = of_int k / 10" using assms(1) by (rule tenthE)
  obtain m where m: "b = of_int m / 10" using assms(2) by (rule tenthE)
  define d where "d = m - k"
  define q where "q = (4 * d + 25) div 50"
  have r: "round1 (v + (b - v) * 0.08) = of_int (k + q) / 10"
    unfolding k m q_def d_def by (rule quiet_round)
  have dist: "\<bar>v - b\<bar> = of_int \<bar>d\<bar> / 10"
    by (simp add: k m d_def abs_minus_commute flip: of_int_diff diff_divide_distrib)
  have dist': "\<bar>round1 (v + (b - v) * 0.08) - b\<bar> = of_int \<bar>d - q\<bar> / 10"
  proof -
    have "of_int (k + q) / 10 - b = - (real_of_int (d - q) / 10)"
      by (simp add: m d_def field_simps)
    then have "round1 (v + (b - v) * 0.08) - b = - (of_int (d - q) / 10)"
      by (simp only: r)
    then show ?thesis by simp
  qed
  show "tenth (round1 (v + (b - v) * 0.08))"
    by (rule round1_tenth)
  have "\<bar>d - q\<bar> \<le> \<bar>d\<bar>"
    unfolding q_def by (rule quiet_int)
  then show "\<bar>round1 (v + (b - v) * 0.08) - b\<bar> \<le> \<bar>v - b\<bar>"
    unfolding dist dist' by (simp add: divide_right_mono)
  {
    assume "6 / 10 < \<bar>v - b\<bar>"
    then have "6 < \<bar>d\<bar>"
      unfolding dist by simp
    then have "\<bar>d - q\<bar> \<le> \<bar>d\<bar> - 1"
      unfolding q_def by (rule quiet_int)
    then have "real_of_int \<bar>d - q\<bar> \<le> real_of_int (\<bar>d\<bar> - 1)"
      by (simp only: of_int_le_iff)
    then show "\<bar>round1 (v + (b - v) * 0.08) - b\<bar> \<le> \<bar>v - b\<bar> - 1 / 10"
      unfolding dist dist' by (simp add: field_simps)
  }
  {
    assume "\<bar>v - b\<bar> \<le> 6 / 10"
    then have "\<bar>d\<bar> \<le> 6"
      unfolding dist by simp
    then have "q = 0"
      unfolding q_def by (rule quiet_int)
    then have "real_of_int (k + q) / 10 = v"
      by (simp add: k)
    then show "round1 (v + (b - v) * 0.08) = v"
      by (simp only: r)
  }
qed

lemma quiet_between:
  assumes "tenth v" "tenth b"
  shows "min v b \<le> round1 (v + (b - v) * 0.08) \<and> round1 (v + (b - v) * 0.08) \<le> max v b"
proof -
  obtain k where k: "v = of_int k / 10" using assms(1) by (rule tenthE)
  obtain m where m: "b = of_int m / 10" using assms(2) by (rule tenthE)
  define d where "d = m - k"
  define q where "q = (4 * d + 25) div 50"
  have r: "round1 (v + (b - v) * 0.08) = of_int (k + q) / 10"
    unfolding k m q_def d_def by (rule quiet_round)
  have "min 0 d \<le> q \<and> q \<le> max 0 d"
    unfolding q_def by (rule quiet_int)
  then have "min k m \<le> k + q \<and> k + q \<le> max k m"
    unfolding d_def by linarith
  then have "real_of_int (min k m) \<le> real_of_int (k + q) \<and> real_of_int (k + q) \<le> real_of_int (max k m)"
    by (simp only: of_int_le_iff)
  then show ?thesis
    unfolding r by (simp add: k m min_def max_def divide_right_mono split: if_splits)
qed

subsection \<open>The bounds of the values and of the buffers\<close>

lemma stored_vital_fields [simp]:
  "min_v (stored_vital v x) = min_v v"
  "max_v (stored_vital v x) = max_v v"
  "baseline (stored_vital v x) = baseline v"
  "variance (stored_vital v x) = variance v"
  "unit_v (stored_vital v x) = unit_v v"
  "value_v (stored_vital v x) = round1 (clamp x (min_v v) (max_v v))"
  "history (stored_vital v x) =
     push_capped chartPoints (round1 (clamp x (min_v v) (max_v v))) (history v)"
  by (simp_all add: stored_vital_def)

lemma push_capped_length: "length a \<le> cap \<Longrightarrow> length (push_capped cap x a) \<le> cap"
  by (simp add: push_capped_def)

lemma stored_vital_in_range:
  assumes "bounds_ok v"
  shows "min_v v \<le> value_v (stored_vital v x) \<and> value_v (stored_vital v x) \<le> max_v v"
proof -
  have "min_v v \<le> clamp x (min_v v) (max_v v) \<and> clamp x (min_v v) (max_v v) \<le> max_v v"
    using assms by (simp add: bounds_ok_def clamp_range)
  then have "min_v v \<le> round1 (clamp x (min_v v) (max_v v)) \<and>
      round1 (clamp x (min_v v) (max_v v)) \<le> max_v v"
    using assms by (intro round1_range) (simp_all add: bounds_ok_def)
  then show ?thesis
    by simp
qed

lemma tick_vital:
  obtains x where "vitals (updateAllVitals te s) sig = stored_vital (vitals s sig) x"
proof (cases "anomalyMode s")
  case False
  then show ?thesis
    by (cases "tick s + 1 < nextAnomalyTick s")
      (auto intro: that simp: updateAllVitals_control tick_quiet tick_trigger)
next
  case True
  then show ?thesis
    by (cases "tick s + 1 - anomalyModeStart s \<le> 20")
      (auto intro: that simp: updateAllVitals_control tick_ongoing tick_resolve)
qed

lemma tick_trend:
  "trendData (updateAllVitals te s) sig =
     (if sig \<in> set trendSignals
      then push_capped trendPoints (value_v (vitals (updateAllVitals te s) sig)) (trendData s sig)
      else trendData s sig)"
  by (simp add: updateAllVitals_blocks storeTrend_eq)

lemma tick_preserves:
  assumes "\<forall>sig. bounds_ok (vitals s sig)"
    and "\<forall>sig. length (history (vitals s sig)) \<le> chartPoints \<and>
           length (trendData s sig) \<le> trendPoints"
  shows "\<forall>sig. bounds_ok (vitals (updateAllVitals te s) sig) \<and>
           min_v (vitals (updateAllVitals te s) sig) \<le> value_v (vitals (updateAllVitals te s) sig) \<and>
           value_v (vitals (updateAllVitals te s) sig) \<le> max_v (vitals (updateAllVitals te s) sig) \<and>
           length (history (vitals (updateAllVitals te s) sig)) \<le> chartPoints \<and>
           length (trendData (updateAllVitals te s) sig) \<le> trendPoints"
proof
  fix sig
  obtain x where v: "vitals (updateAllVitals te s) sig = stored_vital (vitals s sig) x"
    by (rule tick_vital)
  have ok: "bounds_ok (vitals s sig)"
    using assms(1) by blast
  have len: "length (history (vitals s sig)) \<le> chartPoints" "length (trendData s sig) \<le> trendPoints"
    using assms(2) by simp_all
  have "bounds_ok (stored_vital (vitals s sig) x)"
    using ok by (simp add: bounds_ok_def)
  moreover have "min_v (vitals s sig) \<le> value_v (stored_vital (vitals s sig) x) \<and>
      value_v (stored_vital (vitals s sig) x) \<le> max_v (vitals s sig)"
    using ok by (rule stored_vital_in_range)
  moreover have "length (history (stored_vital (vitals s sig) x)) \<le> chartPoints"
    using len(1) by (simp add: push_capped_length)
  moreover have "length (trendData (updateAllVitals te s) sig) \<le> trendPoints"
    using len(2) by (simp add: tick_trend push_capped_length)
  ultimately show "bounds_ok (vitals (updateAllVitals te s) sig) \<and>
           min_v (vitals (updateAllVitals te s) sig) \<le> value_v (vitals (updateAllVitals te s) sig) \<and>
           value_v (vitals (updateAllVitals te s) sig) \<le> max_v (vitals (updateAllVitals te s) sig) \<and>
           length (history (vitals (updateAllVitals te s) sig)) \<le> chartPoints \<and>
           length (trendData (updateAllVitals te s) sig) \<le> trendPoints"
    by (simp add: v)
qed

lemma initial_bounds_ok: "bounds_ok (initial_vital sig)"
  by (cases sig) (simp_all add: bounds_ok_def tenth_def)

subsection \<open>Reversion to the baseline without noise\<close>

lemma tick_vital_quiet:
  assumes "\<not> anomalyMode s" "tick s + 1 < nextAnomalyTick s"
  shows "vitals (updateAllVitals te s) sig =
     stored_vital (vitals s sig) (newVal_base (vitals s sig) (signal_env te sig) (tick s + 1))"
  using assms by (simp add: updateAllVitals_control tick_quiet)

lemma newVal_base_quiet:
  "variance v = 0 \<Longrightarrow> newVal_base v e t = value_v v + (baseline v - value_v v) * 0.08"
  by (simp add: newVal_base_def)

lemma clamp_inside: "lo \<le> x \<Longrightarrow> x \<le> hi \<Longrightarrow> clamp x lo hi = x"
  by (simp add: clamp_def)

lemma reversion_inside:
  fixes v b :: real
  assumes "lo \<le> v" "v \<le> hi" "lo \<le> b" "b \<le> hi"
  shows "lo \<le> v + (b - v) * 0.08 \<and> v + (b - v) * 0.08 \<le> hi"
proof -
  have eq: "v + (b - v) * 0.08 = (23 * v + 2 * b) / 25"
    by (simp add: field_simps)
  have "lo \<le> (23 * v + 2 * b) / 25" and "(23 * v + 2 * b) / 25 \<le> hi"
    using assms by (simp_all add: field_simps)
  then show ?thesis
    unfolding eq by blast
qed

lemma quiet_tick:
  assumes "quiet (vitals s sig)" "\<not> anomalyMode s" "tick s + 1 < nextAnomalyTick s"
  shows "quiet (vitals (updateAllVitals te s) sig)"
    and "distance (vitals (updateAllVitals te s) sig) \<le> distance (vitals s sig)"
    and "6 / 10 < distance (vitals s sig) \<Longrightarrow>
         distance (vitals (updateAllVitals te s) sig) \<le> distance (vitals s sig) - 1 / 10"
    and "distance (vitals s sig) \<le> 6 / 10 \<Longrightarrow>
         value_v (vitals (updateAllVitals te s) sig) = value_v (vitals s sig)"
proof -
  let ?v = "vitals s sig"
  let ?x = "value_v ?v + (baseline ?v - value_v ?v) * 0.08"
  have q: "variance ?v = 0" "tenth (value_v ?v)" "tenth (baseline ?v)"
    "min_v ?v \<le> value_v ?v" "value_v ?v \<le> max_v ?v"
    "min_v ?v \<le> baseline ?v" "baseline ?v \<le> max_v ?v"
    using assms(1) by (simp_all add: quiet_def)
  have "min_v ?v \<le> ?x \<and> ?x \<le> max_v ?v"
    using q(4-7) by (rule reversion_inside)
  then have cl: "clamp ?x (min_v ?v) (max_v ?v) = ?x"
    by (simp add: clamp_inside)
  have new: "vitals (updateAllVitals te s) sig = stored_vital ?v ?x"
    using assms(2,3) q(1) by (simp add: tick_vital_quiet newVal_base_quiet)
  have val: "value_v (vitals (updateAllVitals te s) sig) = round1 ?x"
    unfolding new stored_vital_fields cl ..
  have fields: "variance (vitals (updateAllVitals te s) sig) = 0"
    "baseline (vitals (updateAllVitals te s) sig) = baseline ?v"
    "min_v (vitals (updateAllVitals te s) sig) = min_v ?v"
    "max_v (vitals (updateAllVitals te s) sig) = max_v ?v"
    using q(1) unfolding new stored_vital_fields by simp_all
  have btw: "min (value_v ?v) (baseline ?v) \<le> round1 ?x \<and> round1 ?x \<le> max (value_v ?v) (baseline ?v)"
    using q(2,3) by (rule quiet_between)
  have rng: "min_v ?v \<le> round1 ?x \<and> round1 ?x \<le> max_v ?v"
    using btw q(4-7) by (simp add: min_def max_def split: if_splits)
  show "quiet (vitals (updateAllVitals te s) sig)"
    unfolding quiet_def fields val using rng q(3,6,7) round1_tenth [of ?x] by blast
  show "distance (vitals (updateAllVitals te s) sig) \<le> distance (vitals s sig)"
    unfolding distance_def fields val using q(2,3) by (rule quiet_step)
  show "distance (vitals (updateAllVitals te s) sig) \<le> distance (vitals s sig) - 1 / 10"
    if "6 / 10 < distance (vitals s sig)"
    using q(2,3) that unfolding distance_def fields val by (rule quiet_step)
  show "value_v (vitals (updateAllVitals te s) sig) = value_v (vitals s sig)"
    if "distance (vitals s sig) \<le> 6 / 10"
    using q(2,3) that unfolding distance_def fields val by (rule quiet_step)
qed

lemma quiet_run:
  assumes "quiet (vitals s sig)" "\<not> anomalyMode s" "tick s + int (length tes) < nextAnomalyTick s"
  shows "quiet (vitals (run_ticks tes s) sig) \<and>
         distance (vitals (run_ticks tes s) sig) \<le> distance (vitals s sig) \<and>
         distance (vitals (run_ticks tes s) sig) \<le>
           max (6 / 10) (distance (vitals s sig) - real (length tes) / 10) \<and>
         (distance (vitals s sig) \<le> 6 / 10 \<longrightarrow>
            value_v (vitals (run_ticks tes s) sig) = value_v (vitals s sig))"
  using assms
proof (induction tes arbitrary: s)
  case Nil
  then show ?case by simp
next
  case (Cons te tes)
  let ?s1 = "updateAllVitals te s"
  have now: "tick s + 1 < nextAnomalyTick s"
    using Cons.prems(3) by simp
  note one = quiet_tick [OF Cons.prems(1,2) now, of te]
  note ctl = step_quiet [OF Cons.prems(2) now, of te]
  have later: "tick ?s1 + int (length tes) < nextAnomalyTick ?s1"
    using Cons.prems(3) ctl(2) by simp
  note rest = Cons.IH [OF one(1) ctl(1) later]
  have d1: "distance (vitals (run_ticks (te # tes) s) sig) \<le> distance (vitals s sig)"
    using rest one(2) by simp
  have d2: "distance (vitals (run_ticks (te # tes) s) sig) \<le>
      max (6 / 10) (distance (vitals s sig) - real (length (te # tes)) / 10)"
  proof (cases "6 / 10 < distance (vitals s sig)")
    case True
    from one(3) [OF True] rest show ?thesis
      by (simp add: max_def field_simps split: if_splits)
  next
    case False
    with one(2) rest show ?thesis
      by (simp add: max_def field_simps split: if_splits)
  qed
  have d3: "value_v (vitals (run_ticks (te # tes) s) sig) = value_v (vitals s sig)"
    if small: "distance (vitals s sig) \<le> 6 / 10"
  proof -
    have "distance (vitals ?s1 sig) \<le> 6 / 10"
      using one(2) small by simp
    with rest have "value_v (vitals (run_ticks tes ?s1) sig) = value_v (vitals ?s1 sig)"
      by blast
    with one(4) [OF small] show ?thesis
      by simp
  qed
  from rest d1 d2 d3 show ?case
    by simp
qed

lemma run_ticks_baseline: "baseline (vitals (run_ticks tes s) sig) = baseline (vitals s sig)"
proof (induction tes arbitrary: s)
  case Nil
  show ?case by simp
next
  case (Cons te tes)
  obtain x where "vitals (updateAllVitals te s) sig = stored_vital (vitals s sig) x"
    by (rule tick_vital)
  then show ?case
    using Cons.IH [of "updateAllVitals te s"] by simp
qed

lemma quiet_state_simps:
  "vitals (quiet_state x) Hr = (initial_vital Hr)\<lparr>variance := 0, value_v := x\<rparr>"
  "\<not> anomalyMode (quiet_state x)"
  "tick (quiet_state x) = 0"
  "nextAnomalyTick (quiet_state x) = 30"
  by (simp_all add: quiet_state_def state_def)

section \<open>Initialization\<close>

lemma prefill_history_loop:
  assumes "\<And>v h. F (v\<lparr>history := h\<rparr>) = F v"
  shows "fold (\<lambda>i st. st\<lparr>vitals := (vitals st)
            (sig := (vitals st sig)\<lparr>history := history (vitals st sig) @ [F (vitals st sig) i]\<rparr>)\<rparr>) ns st =
         st\<lparr>vitals := (vitals st)
            (sig := (vitals st sig)\<lparr>history := history (vitals st sig) @ map (F (vitals st sig)) ns\<rparr>)\<rparr>"
  by (induction ns arbitrary: st) (simp_all add: assms)

lemma prefill_trend_loop:
  "fold (\<lambda>i st. st\<lparr>trendData := (trendData st)(sig := trendData st sig @ [G (vitals st sig) i])\<rparr>) ns st =
   st\<lparr>trendData := (trendData st)(sig := trendData st sig @ map (G (vitals st sig)) ns)\<rparr>"
  by (induction ns arbitrary: st) simp_all

lemma prefillHistory_frame [simp]:
  "correlations (prefillHistory es s) = correlations s"
  "risks (prefillHistory es s) = risks s"
  "anomalies (prefillHistory es s) = anomalies s"
  "anomalyStats (prefillHistory es s) = anomalyStats s"
  "trendData (prefillHistory es s) = trendData s"
  "tick (prefillHistory es s) = tick s"
  "anomalyMode (prefillHistory es s) = anomalyMode s"
  "anomalyModeStart (prefillHistory es s) = anomalyModeStart s"
  "nextAnomalyTick (prefillHistory es s) = nextAnomalyTick s"
  and prefillHistory_vitals:
  "vitals (prefillHistory es s) sig =
     (vitals s sig)\<lparr>history := history (vitals s sig) @
        map (\<lambda>i. round1 (clamp (baseline (vitals s sig) +
               gaussRandom (noise_u (es sig i)) (noise_v (es sig i)) * variance (vitals s sig) * 0.5)
               (min_v (vitals s sig)) (max_v (vitals s sig)))) [0..<15]\<rparr>"
proof -
  let ?F = "\<lambda>sig v i. round1 (clamp (baseline v +
               gaussRandom (noise_u (es sig i)) (noise_v (es sig i)) * variance v * 0.5)
               (min_v v) (max_v v))"
  have loop: "fold (\<lambda>i st.
             let v = vitals st sig;
                 noise = gaussRandom (noise_u (es sig i)) (noise_v (es sig i)) * variance v * 0.5;
                 val = clamp (baseline v + noise) (min_v v) (max_v v)
             in st\<lparr>vitals := (vitals st)
                  (sig := v\<lparr>history := history v @
                     [if sig = Temp \<or> sig = Spo2 then Math_round (val * 10) / 10
                      else Math_round (val * 10) / 10]\<rparr>)\<rparr>) ns st =
       st\<lparr>vitals := (vitals st)
            (sig := (vitals st sig)\<lparr>history := history (vitals st sig) @ map (?F sig (vitals st sig)) ns\<rparr>)\<rparr>"
    for sig ns st
    using prefill_history_loop [of "?F sig" sig ns st]
    by (simp add: Let_def round1_def)
  have all: "prefillHistory es s =
      s\<lparr>vitals := \<lambda>sig. (vitals s sig)\<lparr>history := history (vitals s sig) @
          map (?F sig (vitals s sig)) [0..<15]\<rparr>\<rparr>"
    using all_signals_upd [of "vitals s"
        "\<lambda>sig. (vitals s sig)\<lparr>history := history (vitals s sig) @ map (?F sig (vitals s sig)) [0..<15]\<rparr>"]
    unfolding prefillHistory_def loop signals_def by simp
  show "correlations (prefillHistory es s) = correlations s"
    "risks (prefillHistory es s) = risks s"
    "anomalies (prefillHistory es s) = anomalies s"
    "anomalyStats (prefillHistory es s) = anomalyStats s"
    "trendData (prefillHistory es s) = trendData s"
    "tick (prefillHistory es s) = tick s"
    "anomalyMode (prefillHistory es s) = anomalyMode s"
    "anomalyModeStart (prefillHistory es s) = anomalyModeStart s"
    "nextAnomalyTick (prefillHistory es s) = nextAnomalyTick s"
    "vitals (prefillHistory es s) sig =
     (vitals s sig)\<lparr>history := history (vitals s sig) @ map (?F sig (vitals s sig)) [0..<15]\<rparr>"
    unfolding all by simp_all
qed


lemma prefillTrend_eq:
  "prefillTrend es s =
     s\<lparr>trendData := \<lambda>sig. if sig \<in> set trendSignals
          then trendData s sig @
            map (\<lambda>i. clamp (baseline (vitals s sig) +
                   gaussRandom (noise_u (es sig i)) (noise_v (es sig i)) * variance (vitals s sig) * 0.5)
                   (min_v (vitals s sig)) (max_v (vitals s sig))) [0..<20]
          else trendData s sig\<rparr>"
proof -
  let ?G = "\<lambda>sig v i. clamp (baseline v +
               gaussRandom (noise_u (es sig i)) (noise_v (es sig i)) * variance v * 0.5)
               (min_v v) (max_v v)"
  have loop: "fold (\<lambda>i st.
             let v = vitals st sig;
                 noise = gaussRandom (noise_u (es sig i)) (noise_v (es sig i)) * variance v * 0.5
             in st\<lparr>trendData := (trendData st)
                  (sig := trendData st sig @ [clamp (baseline v + noise) (min_v v) (max_v v)])\<rparr>) ns st =
       st\<lparr>trendData := (trendData st)(sig := trendData st sig @ map (?G sig (vitals st sig)) ns)\<rparr>"
    for sig ns st
    using prefill_trend_loop [of sig "?G sig" ns st] by (simp add: Let_def)
  have "(trendData s)
      (Hr := trendData s Hr @ map (?G Hr (vitals s Hr)) [0..<20],
       Spo2 := trendData s Spo2 @ map (?G Spo2 (vitals s Spo2)) [0..<20],
       Bp_sys := trendData s Bp_sys @ map (?G Bp_sys (vitals s Bp_sys)) [0..<20],
       Bp_dia := trendData s Bp_dia @ map (?G Bp_dia (vitals s Bp_dia)) [0..<20],
       Rr := trendData s Rr @ map (?G Rr (vitals s Rr)) [0..<20],
       Hrv := trendData s Hrv @ map (?G Hrv (vitals s Hrv)) [0..<20]) =
     (\<lambda>sig. if sig \<in> set trendSignals
          then trendData s sig @ map (?G sig (vitals s sig)) [0..<20]
          else trendData s sig)"
    (is "?upd = ?all")
  proof (rule ext)
    fix sig show "?upd sig = ?all sig"
      by (cases sig) (simp_all add: trendSignals_def)
  qed
  moreover have "prefillTrend es s = s\<lparr>trendData := ?upd\<rparr>"
    unfolding prefillTrend_def loop trendSignals_def by simp
  ultimately show ?thesis by simp
qed

lemma init_control:
  "tick (init ie s) = tick s"
  "anomalyMode (init ie s) = anomalyMode s"
  "anomalyModeStart (init ie s) = anomalyModeStart s"
  "nextAnomalyTick (init ie s) = nextAnomalyTick s"
  "anomalies (init ie s) =
     anomalies (addAnomaly (info_env ie) ''info'' info_title info_description info_tags ''low'' s)"
  by (simp_all add: init_def Let_def prefillTrend_eq addAnomaly_anomalies)

lemma init_vitals:
  "value_v (vitals (init ie s) sig) = value_v (vitals s sig)"
  "baseline (vitals (init ie s) sig) = baseline (vitals s sig)"
  "min_v (vitals (init ie s) sig) = min_v (vitals s sig)"
  "max_v (vitals (init ie s) sig) = max_v (vitals s sig)"
  "variance (vitals (init ie s) sig) = variance (vitals s sig)"
  "length (history (vitals (init ie s) sig)) = length (history (vitals s sig)) + 15"
  "length (trendData (init ie s) sig) =
     length (trendData s sig) + (if sig \<in> set trendSignals then 20 else 0)"
  by (simp_all add: init_def Let_def prefillTrend_eq prefillHistory_vitals)

lemma init_state:
  "tick (init ie state) = 0"
  "\<not> anomalyMode (init ie state)"
  "nextAnomalyTick (init ie state) = 30"
  "anomalies (init ie state) = [info_event (info_env ie)]"
  "bounds_ok (vitals (init ie state) sig)"
  "min_v (vitals (init ie state) sig) \<le> value_v (vitals (init ie state) sig)"
  "value_v (vitals (init ie state) sig) \<le> max_v (vitals (init ie state) sig)"
  "length (history (vitals (init ie state) sig)) = 15"
  "length (trendData (init ie state) sig) \<le> 20"
proof -
  show "tick (init ie state) = 0" "\<not> anomalyMode (init ie state)"
    "nextAnomalyTick (init ie state) = 30"
    by (simp_all add: init_control state_def)
  show "anomalies (init ie state) = [info_event (info_env ie)]"
    by (simp add: init_control addAnomaly_anomalies info_event_def state_def)
  show "bounds_ok (vitals (init ie state) sig)"
    using initial_bounds_ok [of sig] by (simp add: bounds_ok_def init_vitals state_def)
  show "min_v (vitals (init ie state) sig) \<le> value_v (vitals (init ie state) sig)"
    "value_v (vitals (init ie state) sig) \<le> max_v (vitals (init ie state) sig)"
    by (cases sig; simp add: init_vitals state_def)+
  show "length (history (vitals (init ie state) sig)) = 15"
    by (cases sig) (simp_all add: init_vitals state_def)
  show "length (trendData (init ie state) sig) \<le> 20"
    by (simp add: init_vitals state_def)
qed

section \<open>The claims\<close>

subsection \<open>Claim C1\<close>

text \<open>
  Claim C1. Let the bounds of every signal be in the right order and multiples of 0.1,
  and let every history hold at most 40 and every trend at most 60 values; the literal
  \<^verbatim>\<open>state\<close> is such a state, and so is the state that \<^verbatim>\<open>init\<close> makes of it, whatever the
  draws. Then after every tick of every run, whatever the draws, every
  signal has \<open>min \<le> value \<le> max\<close>, at most 40 values in its history and at most 60
  in its trend, and its bounds are those of the start. In particular, with the bounds
  of the initial state, rounding a clamped value to one decimal place gives a value
  inside the bounds.
\<close>

theorem tick_invariants:
  assumes "\<forall>sig. bounds_ok (vitals s sig)"
    and "\<forall>sig. length (history (vitals s sig)) \<le> chartPoints \<and>
           length (trendData s sig) \<le> trendPoints"
    and "tes \<noteq> []"
  shows "(\<forall>sig. min_v (vitals (run_ticks tes s) sig) \<le> value_v (vitals (run_ticks tes s) sig) \<and>
            value_v (vitals (run_ticks tes s) sig) \<le> max_v (vitals (run_ticks tes s) sig) \<and>
            length (history (vitals (run_ticks tes s) sig)) \<le> 40 \<and>
            length (trendData (run_ticks tes s) sig) \<le> 60 \<and>
            min_v (vitals (run_ticks tes s) sig) = min_v (vitals s sig) \<and>
            max_v (vitals (run_ticks tes s) sig) = max_v (vitals s sig)) \<and>
         (\<forall>sig. bounds_ok (vitals state sig) \<and> length (history (vitals state sig)) \<le> chartPoints \<and>
            length (trendData state sig) \<le> trendPoints) \<and>
         (\<forall>ie sig. bounds_ok (vitals (init ie state) sig) \<and>
            length (history (vitals (init ie state) sig)) \<le> chartPoints \<and>
            length (trendData (init ie state) sig) \<le> trendPoints) \<and>
         (\<forall>sig x. min_v (initial_vital sig) \<le>
              round1 (clamp x (min_v (initial_vital sig)) (max_v (initial_vital sig))) \<and>
            round1 (clamp x (min_v (initial_vital sig)) (max_v (initial_vital sig))) \<le>
              max_v (initial_vital sig))"
proof -
  have run: "\<forall>sig. bounds_ok (vitals (run_ticks tes s) sig) \<and>
        min_v (vitals (run_ticks tes s) sig) \<le> value_v (vitals (run_ticks tes s) sig) \<and>
        value_v (vitals (run_ticks tes s) sig) \<le> max_v (vitals (run_ticks tes s) sig) \<and>
        length (history (vitals (run_ticks tes s) sig)) \<le> chartPoints \<and>
        length (trendData (run_ticks tes s) sig) \<le> trendPoints"
    using assms
  proof (induction tes arbitrary: s rule: rev_induct)
    case Nil
    then show ?case by simp
  next
    case (snoc te tes)
    show ?case
    proof (cases "tes = []")
      case True
      with snoc.prems show ?thesis
        using tick_preserves [of s te] by simp
    next
      case False
      from snoc.IH [OF snoc.prems(1,2) False]
      show ?thesis
        using tick_preserves [of "run_ticks tes s" te] by (simp add: run_ticks_snoc)
    qed
  qed
  have same: "min_v (vitals (run_ticks tes s) sig) = min_v (vitals s sig) \<and>
      max_v (vitals (run_ticks tes s) sig) = max_v (vitals s sig)" for sig
  proof (induction tes arbitrary: s)
    case Nil
    show ?case by simp
  next
    case (Cons te tes)
    obtain x where "vitals (updateAllVitals te s) sig = stored_vital (vitals s sig) x"
      by (rule tick_vital)
    then show ?case
      using Cons.IH [of "updateAllVitals te s"] by simp
  qed
  have init: "\<forall>sig. bounds_ok (vitals state sig) \<and> length (history (vitals state sig)) \<le> chartPoints \<and>
      length (trendData state sig) \<le> trendPoints"
  proof
    fix sig
    show "bounds_ok (vitals state sig) \<and> length (history (vitals state sig)) \<le> chartPoints \<and>
      length (trendData state sig) \<le> trendPoints"
      using initial_bounds_ok [of sig] by (cases sig) (simp_all add: state_def)
  qed
  have rounding: "\<forall>sig x. min_v (initial_vital sig) \<le>
        round1 (clamp x (min_v (initial_vital sig)) (max_v (initial_vital sig))) \<and>
      round1 (clamp x (min_v (initial_vital sig)) (max_v (initial_vital sig))) \<le>
        max_v (initial_vital sig)"
    using stored_vital_in_range [OF initial_bounds_ok] by simp
  have started: "\<forall>ie sig. bounds_ok (vitals (init ie state) sig) \<and>
      length (history (vitals (init ie state) sig)) \<le> chartPoints \<and>
      length (trendData (init ie state) sig) \<le> trendPoints"
  proof (intro allI)
    fix ie sig
    have "length (trendData (init ie state) sig) \<le> 20"
      by (rule init_state)
    then show "bounds_ok (vitals (init ie state) sig) \<and>
      length (history (vitals (init ie state) sig)) \<le> chartPoints \<and>
      length (trendData (init ie state) sig) \<le> trendPoints"
      by (simp add: init_state(5,8) chartPoints_def trendPoints_def)
  qed
  from run same init started rounding show ?thesis
    by (simp add: chartPoints_def trendPoints_def)
qed

text \<open>Two ticks after \<^verbatim>\<open>init\<close>.\<close>

theorem tick_invariants_witness:
  "(\<forall>sig. bounds_ok (vitals (init sample_init_env state) sig)) \<and>
   (\<forall>sig. length (history (vitals (init sample_init_env state) sig)) \<le> chartPoints \<and>
      length (trendData (init sample_init_env state) sig) \<le> trendPoints) \<and>
   [sample_tick_env, sample_tick_env] \<noteq> [] \<and>
   96.5 \<le> value_v (vitals (run_ticks [sample_tick_env, sample_tick_env]
     (init sample_init_env state)) Temp) \<and>
   value_v (vitals (run_ticks [sample_tick_env, sample_tick_env]
     (init sample_init_env state)) Temp) \<le> 101 \<and>
   length (history (vitals (run_ticks [sample_tick_env, sample_tick_env]
     (init sample_init_env state)) Temp)) \<le> 40 \<and>
   length (trendData (run_ticks [sample_tick_env, sample_tick_env]
     (init sample_init_env state)) Hr) \<le> 60"
proof -
  let ?s = "init sample_init_env state"
  let ?s' = "run_ticks [sample_tick_env, sample_tick_env] ?s"
  have cfg: "\<forall>sig. bounds_ok (vitals ?s sig)"
    by (simp add: init_state)
  have buf: "\<forall>sig. length (history (vitals ?s sig)) \<le> chartPoints \<and>
      length (trendData ?s sig) \<le> trendPoints"
  proof
    fix sig
    have "length (trendData ?s sig) \<le> 20"
      by (rule init_state)
    then show "length (history (vitals ?s sig)) \<le> chartPoints \<and>
      length (trendData ?s sig) \<le> trendPoints"
      by (simp add: init_state(8) chartPoints_def trendPoints_def)
  qed
  have ne: "[sample_tick_env, sample_tick_env] \<noteq> []"
    by simp
  have lo: "min_v (vitals ?s Temp) = 96.5" and hi: "max_v (vitals ?s Temp) = 101"
    by (simp_all add: init_vitals state_def)
  from tick_invariants [OF cfg buf ne]
  have "\<forall>sig. min_v (vitals ?s sig) \<le> value_v (vitals ?s' sig) \<and>
        value_v (vitals ?s' sig) \<le> max_v (vitals ?s sig) \<and>
        length (history (vitals ?s' sig)) \<le> 40 \<and>
        length (trendData ?s' sig) \<le> 60"
    by metis
  then have "min_v (vitals ?s Temp) \<le> value_v (vitals ?s' Temp) \<and>
        value_v (vitals ?s' Temp) \<le> max_v (vitals ?s Temp) \<and>
        length (history (vitals ?s' Temp)) \<le> 40 \<and>
        length (trendData ?s' Hr) \<le> 60"
    by blast
  with cfg buf ne show ?thesis
    by (simp only: lo hi simp_thms)
qed

subsection \<open>Claim C2\<close>

text \<open>
  Claim C2, as stated, fails twice, both times by the rounding. With every variance 0
  and no anomaly, a heart rate of 72.06 (baseline 72) becomes
  \<open>round (720.552) / 10 = 72.1\<close> in one tick: the distance grows from 0.06 to 0.1. And
  a heart rate of 72.5 becomes \<open>round (724.6) / 10 = 72.5\<close>: it never moves, and the
  distance stays 0.5.
\<close>

theorem quiet_convergence_counterexample:
  "variance (vitals (quiet_state 72.06) Hr) = 0 \<and> \<not> anomalyMode (quiet_state 72.06) \<and>
   min_v (vitals (quiet_state 72.06) Hr) \<le> 72.06 \<and> 72.06 \<le> max_v (vitals (quiet_state 72.06) Hr) \<and>
   value_v (vitals (quiet_state 72.06) Hr) = 72.06 \<and>
   distance (vitals (quiet_state 72.06) Hr) = 0.06 \<and>
   value_v (vitals (updateAllVitals sample_tick_env (quiet_state 72.06)) Hr) = 72.1 \<and>
   distance (vitals (updateAllVitals sample_tick_env (quiet_state 72.06)) Hr) = 0.1 \<and>
   distance (vitals (quiet_state 72.5) Hr) = 0.5 \<and>
   value_v (vitals (updateAllVitals sample_tick_env (quiet_state 72.5)) Hr) = 72.5 \<and>
   distance (vitals (run_ticks [sample_tick_env, sample_tick_env, sample_tick_env]
     (quiet_state 72.5)) Hr) = 0.5"
proof -
  have soon: "tick (quiet_state x) + 1 < nextAnomalyTick (quiet_state x)" for x
    by (simp add: quiet_state_simps)
  have step: "vitals (updateAllVitals sample_tick_env (quiet_state x)) Hr =
      stored_vital (vitals (quiet_state x) Hr)
        (value_v (vitals (quiet_state x) Hr) +
         (baseline (vitals (quiet_state x) Hr) - value_v (vitals (quiet_state x) Hr)) * 0.08)" for x
    using tick_vital_quiet [OF quiet_state_simps(2) [of x] soon [of x], of sample_tick_env Hr]
    by (simp add: newVal_base_quiet quiet_state_simps)
  have up: "value_v (vitals (updateAllVitals sample_tick_env (quiet_state 72.06)) Hr) = 72.1"
    by (simp add: step quiet_state_simps clamp_def round1_def Math_round_def)
  have stay: "value_v (vitals (updateAllVitals sample_tick_env (quiet_state 72.5)) Hr) = 72.5"
    by (simp add: step quiet_state_simps clamp_def round1_def Math_round_def)
  have base: "baseline (vitals (updateAllVitals sample_tick_env (quiet_state x)) Hr) = 72" for x
    by (simp add: step quiet_state_simps)
  have q: "quiet (vitals (quiet_state 72.5) Hr)"
    by (simp add: quiet_def quiet_state_simps tenth_def)
  have d: "distance (vitals (quiet_state 72.5) Hr) = 0.5"
    by (simp add: distance_def quiet_state_simps)
  have "tick (quiet_state 72.5) + int (length [sample_tick_env, sample_tick_env, sample_tick_env])
      < nextAnomalyTick (quiet_state 72.5)"
    by (simp add: quiet_state_simps)
  from quiet_run [OF q quiet_state_simps(2) this] d
  have "value_v (vitals (run_ticks [sample_tick_env, sample_tick_env, sample_tick_env]
      (quiet_state 72.5)) Hr) = 72.5 \<and>
    quiet (vitals (run_ticks [sample_tick_env, sample_tick_env, sample_tick_env]
      (quiet_state 72.5)) Hr)"
    by (simp add: quiet_state_simps)
  moreover have "baseline (vitals (run_ticks [sample_tick_env, sample_tick_env, sample_tick_env]
      (quiet_state 72.5)) Hr) = 72"
    unfolding run_ticks_baseline by (simp add: quiet_state_simps)
  ultimately have far: "distance (vitals (run_ticks [sample_tick_env, sample_tick_env, sample_tick_env]
      (quiet_state 72.5)) Hr) = 0.5"
    by (simp add: distance_def)
  show ?thesis
    using up stay far d base [of "72.06"]
    by (simp add: distance_def quiet_state_simps)
qed

text \<open>
  Claim C2, amended. Let a signal have variance 0, a value and a baseline that are
  multiples of 0.1 inside the bounds, and let no anomaly be triggered during the ticks.
  Then at every tick the distance \<open>|value - baseline|\<close> does not increase; it
  decreases by at least 0.1 while it is greater than 0.6; and a value within 0.6 of
  the baseline no longer changes. So after \<open>n\<close> ticks the distance is at most the
  greater of 0.6 and the initial distance minus \<open>n / 10\<close>: the value comes within 0.6
  of the baseline and stops there; the distance does not tend to 0 in general.
\<close>

theorem quiet_reversion:
  assumes "quiet (vitals s sig)" and "\<not> anomalyMode s"
    and "tick s + int (length tes) + 1 < nextAnomalyTick s"
  shows "distance (vitals (run_ticks (tes @ [te]) s) sig) \<le> distance (vitals (run_ticks tes s) sig) \<and>
         (6 / 10 < distance (vitals (run_ticks tes s) sig) \<longrightarrow>
            distance (vitals (run_ticks (tes @ [te]) s) sig) \<le>
              distance (vitals (run_ticks tes s) sig) - 1 / 10) \<and>
         (distance (vitals (run_ticks tes s) sig) \<le> 6 / 10 \<longrightarrow>
            value_v (vitals (run_ticks (tes @ [te]) s) sig) =
              value_v (vitals (run_ticks tes s) sig)) \<and>
         distance (vitals (run_ticks tes s) sig) \<le>
           max (6 / 10) (distance (vitals s sig) - real (length tes) / 10) \<and>
         quiet (vitals (run_ticks (tes @ [te]) s) sig)"
proof -
  let ?sn = "run_ticks tes s"
  have before: "tick s + int (length tes) < nextAnomalyTick s"
    using assms(3) by simp
  note run = quiet_run [OF assms(1,2) before]
  note ctl = run_quiet [OF assms(2) before]
  have idle: "\<not> anomalyMode ?sn" and now: "tick ?sn + 1 < nextAnomalyTick ?sn"
    using ctl assms(3) by simp_all
  have q: "quiet (vitals ?sn sig)"
    using run by blast
  note one = quiet_tick [OF q idle now, of te]
  from one run show ?thesis
    by (simp add: run_ticks_snoc)
qed

text \<open>From a heart rate of 73 the first tick gives 72.9, and the second one goes on; a
  heart rate of 72.5 stays.\<close>

theorem quiet_reversion_witness:
  "quiet (vitals (quiet_state 73) Hr) \<and> \<not> anomalyMode (quiet_state 73) \<and>
   tick (quiet_state 73) + int (length [sample_tick_env]) + 1 < nextAnomalyTick (quiet_state 73) \<and>
   6 / 10 < distance (vitals (run_ticks [sample_tick_env] (quiet_state 73)) Hr) \<and>
   distance (vitals (run_ticks ([sample_tick_env] @ [sample_tick_env]) (quiet_state 73)) Hr) \<le>
     distance (vitals (run_ticks [sample_tick_env] (quiet_state 73)) Hr) - 1 / 10 \<and>
   distance (vitals (run_ticks [sample_tick_env] (quiet_state 73)) Hr) \<le> 9 / 10 \<and>
   quiet (vitals (quiet_state 72.5) Hr) \<and>
   distance (vitals (run_ticks [] (quiet_state 72.5)) Hr) \<le> 6 / 10 \<and>
   value_v (vitals (run_ticks ([] @ [sample_tick_env]) (quiet_state 72.5)) Hr) = 72.5"
proof -
  have q: "quiet (vitals (quiet_state 73) Hr)"
    by (simp add: quiet_def quiet_state_simps tenth_def)
  have idle: "\<not> anomalyMode (quiet_state 73)"
    by (rule quiet_state_simps)
  have soon: "tick (quiet_state 73) + int (length [sample_tick_env]) + 1 < nextAnomalyTick (quiet_state 73)"
    by (simp add: quiet_state_simps)
  have now: "tick (quiet_state 73) + 1 < nextAnomalyTick (quiet_state 73)"
    by (simp add: quiet_state_simps)
  have "vitals (run_ticks [sample_tick_env] (quiet_state 73)) Hr =
      stored_vital (vitals (quiet_state 73) Hr)
        (newVal_base (vitals (quiet_state 73) Hr) (signal_env sample_tick_env Hr)
          (tick (quiet_state 73) + 1))"
    using tick_vital_quiet [OF idle now, of sample_tick_env Hr] by simp
  then have d1: "distance (vitals (run_ticks [sample_tick_env] (quiet_state 73)) Hr) = 9 / 10"
    by (simp add: distance_def newVal_base_quiet quiet_state_simps clamp_def round1_def Math_round_def)
  have far: "6 / 10 < distance (vitals (run_ticks [sample_tick_env] (quiet_state 73)) Hr)"
    unfolding d1 by simp
  from quiet_reversion [OF q idle soon, of sample_tick_env] far
  have "distance (vitals (run_ticks ([sample_tick_env] @ [sample_tick_env]) (quiet_state 73)) Hr) \<le>
     distance (vitals (run_ticks [sample_tick_env] (quiet_state 73)) Hr) - 1 / 10"
    by blast
  then have first: "quiet (vitals (quiet_state 73) Hr) \<and> \<not> anomalyMode (quiet_state 73) \<and>
      tick (quiet_state 73) + int (length [sample_tick_env]) + 1 < nextAnomalyTick (quiet_state 73) \<and>
      6 / 10 < distance (vitals (run_ticks [sample_tick_env] (quiet_state 73)) Hr) \<and>
      distance (vitals (run_ticks ([sample_tick_env] @ [sample_tick_env]) (quiet_state 73)) Hr) \<le>
        distance (vitals (run_ticks [sample_tick_env] (quiet_state 73)) Hr) - 1 / 10 \<and>
      distance (vitals (run_ticks [sample_tick_env] (quiet_state 73)) Hr) \<le> 9 / 10"
    using q idle soon far d1 by simp
  have q': "quiet (vitals (quiet_state 72.5) Hr)"
    by (simp add: quiet_def quiet_state_simps tenth_def)
  have idle': "\<not> anomalyMode (quiet_state 72.5)"
    by (rule quiet_state_simps)
  have soon': "tick (quiet_state 72.5) + int (length ([] :: tick_env list)) + 1 <
      nextAnomalyTick (quiet_state 72.5)"
    by (simp add: quiet_state_simps)
  have near: "distance (vitals (run_ticks [] (quiet_state 72.5)) Hr) \<le> 6 / 10"
    by (simp add: distance_def quiet_state_simps)
  from quiet_reversion [OF q' idle' soon', of sample_tick_env] near
  have "value_v (vitals (run_ticks ([] @ [sample_tick_env]) (quiet_state 72.5)) Hr) =
      value_v (vitals (run_ticks [] (quiet_state 72.5)) Hr)"
    by blast
  then have "value_v (vitals (run_ticks ([] @ [sample_tick_env]) (quiet_state 72.5)) Hr) = 72.5"
    by (simp add: quiet_state_simps)
  with first q' near show ?thesis
    by blast
qed

subsection \<open>Claim C3\<close>




subsection \<open>Claim C4\<close>

text \<open>
  Claim C4. Take the state at the end of the tick \<open>T\<close> in which an episode became
  active: the mode is on and \<open>anomalyModeStart\<close> is the counter, \<open>T\<close> (claim C5). Over
  the next 20 ticks the episode stays active and the log does not change. The tick after
  them, tick \<open>T + 21\<close>, ends idle; its log is the log of tick \<open>T\<close> with one
  \<^verbatim>\<open>addAnomaly\<close> applied, the event of status \<^verbatim>\<open>auto-resolved\<close> and severity \<^verbatim>\<open>low\<close>,
  which is at the front; and \<open>nextAnomalyTick\<close> is
  \<open>T + 21 + 25 + floor (r * 20)\<close> for the draw \<open>r\<close> of \<^verbatim>\<open>Math.random()\<close>, which lies
  between \<open>T + 21 + 25\<close> and \<open>T + 21 + 44\<close> since \<open>0 \<le> r < 1\<close>.
\<close>

theorem episode_resolves:
  assumes "anomalyMode s" and "anomalyModeStart s = tick s"
  shows "(length tes \<le> 20 \<longrightarrow>
            anomalyMode (run_ticks tes s) \<and> anomalies (run_ticks tes s) = anomalies s) \<and>
         (length tes = 20 \<longrightarrow>
            tick (updateAllVitals te (run_ticks tes s)) = tick s + 21 \<and>
            \<not> anomalyMode (updateAllVitals te (run_ticks tes s)) \<and>
            anomalies (updateAllVitals te (run_ticks tes s)) =
              anomalies (addAnomaly (signal_env te Hr) ''auto-resolved'' resolved_title
                resolved_description resolved_tags ''low'' s) \<and>
            hd (anomalies (updateAllVitals te (run_ticks tes s))) = resolved_event (signal_env te Hr) \<and>
            status (resolved_event (signal_env te Hr)) = ''auto-resolved'' \<and>
            severity (resolved_event (signal_env te Hr)) = ''low'' \<and>
            nextAnomalyTick (updateAllVitals te (run_ticks tes s)) =
              tick s + 21 + 25 + \<lfloor>next_rnd (signal_env te Hr) * 20\<rfloor> \<and>
            (0 \<le> next_rnd (signal_env te Hr) \<and> next_rnd (signal_env te Hr) < 1 \<longrightarrow>
               tick s + 21 + 25 \<le> nextAnomalyTick (updateAllVitals te (run_ticks tes s)) \<and>
               nextAnomalyTick (updateAllVitals te (run_ticks tes s)) \<le> tick s + 21 + 44))"
proof (intro conjI impI; (elim conjE)?)
  assume len: "length tes \<le> 20"
  have "tick s + int (length tes) - anomalyModeStart s \<le> 20"
    using len assms(2) by simp
  from run_ongoing [OF assms(1) this]
  show "anomalyMode (run_ticks tes s)" and "anomalies (run_ticks tes s) = anomalies s"
    by simp_all
next
  assume len: "length tes = 20"
  let ?s20 = "run_ticks tes s"
  have "tick s + int (length tes) - anomalyModeStart s \<le> 20"
    using len assms(2) by simp
  from run_ongoing [OF assms(1) this]
  have before: "anomalyMode ?s20" "anomalyModeStart ?s20 = tick s" "anomalies ?s20 = anomalies s"
    using assms(2) by simp_all
  have over: "tick ?s20 + 1 - anomalyModeStart ?s20 > 20"
    using before(2) len by simp
  note one = step_resolve [OF before(1) over, of te]
  show "tick (updateAllVitals te ?s20) = tick s + 21"
    using len by simp
  show "\<not> anomalyMode (updateAllVitals te ?s20)"
    by (rule one)
  show log: "anomalies (updateAllVitals te ?s20) =
      anomalies (addAnomaly (signal_env te Hr) ''auto-resolved'' resolved_title
        resolved_description resolved_tags ''low'' s)"
    using one(3) before(3) by (simp add: addAnomaly_anomalies)
  show "hd (anomalies (updateAllVitals te ?s20)) = resolved_event (signal_env te Hr)"
    by (simp only: log hd_addAnomaly resolved_event_def)
  show next_tick: "nextAnomalyTick (updateAllVitals te ?s20) =
      tick s + 21 + 25 + \<lfloor>next_rnd (signal_env te Hr) * 20\<rfloor>"
    using one(2) len by simp
  {
    assume lo: "0 \<le> next_rnd (signal_env te Hr)" and hi: "next_rnd (signal_env te Hr) < 1"
    have "0 \<le> \<lfloor>next_rnd (signal_env te Hr) * 20\<rfloor>"
      using lo by simp
    moreover have "\<lfloor>next_rnd (signal_env te Hr) * 20\<rfloor> < 20"
      using hi by (simp add: floor_less_iff)
    ultimately show "tick s + 21 + 25 \<le> nextAnomalyTick (updateAllVitals te ?s20)"
      and "nextAnomalyTick (updateAllVitals te ?s20) \<le> tick s + 21 + 44"
      by (simp_all add: next_tick)
  }
next
  show "status (resolved_event (signal_env te Hr)) = ''auto-resolved''"
    by (simp add: resolved_event_def)
  show "severity (resolved_event (signal_env te Hr)) = ''low''"
    by (simp add: resolved_event_def)
qed

text \<open>An episode started at tick 30 ends at tick 51; with the draw \<open>1/2\<close> the next one
  is due at tick 86.\<close>

theorem episode_resolves_witness:
  "anomalyMode (state\<lparr>tick := 30, anomalyMode := True, anomalyModeStart := 30\<rparr>) \<and>
   anomalyModeStart (state\<lparr>tick := 30, anomalyMode := True, anomalyModeStart := 30\<rparr>) =
     tick (state\<lparr>tick := 30, anomalyMode := True, anomalyModeStart := 30\<rparr>) \<and>
   length (replicate 20 sample_tick_env) = 20 \<and>
   0 \<le> next_rnd (signal_env sample_tick_env Hr) \<and> next_rnd (signal_env sample_tick_env Hr) < 1 \<and>
   anomalyMode (run_ticks (replicate 20 sample_tick_env)
     (state\<lparr>tick := 30, anomalyMode := True, anomalyModeStart := 30\<rparr>)) \<and>
   \<not> anomalyMode (updateAllVitals sample_tick_env (run_ticks (replicate 20 sample_tick_env)
     (state\<lparr>tick := 30, anomalyMode := True, anomalyModeStart := 30\<rparr>))) \<and>
   tick (updateAllVitals sample_tick_env (run_ticks (replicate 20 sample_tick_env)
     (state\<lparr>tick := 30, anomalyMode := True, anomalyModeStart := 30\<rparr>))) = 51 \<and>
   anomalies (updateAllVitals sample_tick_env (run_ticks (replicate 20 sample_tick_env)
     (state\<lparr>tick := 30, anomalyMode := True, anomalyModeStart := 30\<rparr>))) =
     [resolved_event sample_env] \<and>
   nextAnomalyTick (updateAllVitals sample_tick_env (run_ticks (replicate 20 sample_tick_env)
     (state\<lparr>tick := 30, anomalyMode := True, anomalyModeStart := 30\<rparr>))) = 86"
proof -
  let ?s = "state\<lparr>tick := 30, anomalyMode := True, anomalyModeStart := 30\<rparr>"
  have active: "anomalyMode ?s" and start: "anomalyModeStart ?s = tick ?s"
    by simp_all
  have len: "length (replicate 20 sample_tick_env) = 20"
    by simp
  have rnd: "0 \<le> next_rnd (signal_env sample_tick_env Hr) \<and> next_rnd (signal_env sample_tick_env Hr) < 1"
    by (simp add: sample_tick_env_def sample_env_def)
  have log: "anomalies (addAnomaly (signal_env sample_tick_env Hr) ''auto-resolved'' resolved_title
      resolved_description resolved_tags ''low'' ?s) = [resolved_event sample_env]"
    by (simp add: addAnomaly_anomalies state_def sample_tick_env_def resolved_event_def)
  have next_tick: "tick ?s + 21 + 25 + \<lfloor>next_rnd (signal_env sample_tick_env Hr) * 20\<rfloor> = 86"
    by (simp add: sample_tick_env_def sample_env_def)
  show ?thesis
    using episode_resolves [OF active start, of "replicate 20 sample_tick_env" sample_tick_env]
      len rnd log next_tick
    by simp
qed

subsection \<open>Claim C5\<close>

text \<open>
  Claim C5. A tick increments the counter first. If the state is idle and the new
  counter has reached \<open>nextAnomalyTick\<close>, the tick ends active with
  \<open>anomalyModeStart\<close> equal to the new counter, and its log is the old log with one
  \<^verbatim>\<open>addAnomaly\<close> applied, the event of status \<^verbatim>\<open>active\<close> and severity \<^verbatim>\<open>medium\<close>, which
  is at the front. If the new counter is still below \<open>nextAnomalyTick\<close>, the tick stays
  idle and appends nothing. So from a state with counter 0, idle, and
  \<open>nextAnomalyTick = 30\<close>, every run of fewer than 30 ticks is idle with an unchanged
  log, and the thirtieth tick activates, with start tick 30 and exactly that one event
  appended. The literal \<^verbatim>\<open>state\<close> is such a state, and so is the state that \<^verbatim>\<open>init\<close>
  makes of it.
\<close>

theorem trigger_activation:
  "(\<not> anomalyMode s \<and> nextAnomalyTick s \<le> tick s + 1 \<longrightarrow>
      anomalyMode (updateAllVitals te s) \<and>
      anomalyModeStart (updateAllVitals te s) = tick (updateAllVitals te s) \<and>
      tick (updateAllVitals te s) = tick s + 1 \<and>
      anomalies (updateAllVitals te s) =
        anomalies (addAnomaly (trigger_env te) ''active'' active_title active_description
          active_tags ''medium'' s) \<and>
      hd (anomalies (updateAllVitals te s)) = active_event (trigger_env te) \<and>
      status (active_event (trigger_env te)) = ''active'' \<and>
      severity (active_event (trigger_env te)) = ''medium'') \<and>
   (\<not> anomalyMode s \<and> tick s + 1 < nextAnomalyTick s \<longrightarrow>
      \<not> anomalyMode (updateAllVitals te s) \<and> anomalies (updateAllVitals te s) = anomalies s) \<and>
   (tick s = 0 \<and> \<not> anomalyMode s \<and> nextAnomalyTick s = 30 \<longrightarrow>
      (length tes < 30 \<longrightarrow>
         \<not> anomalyMode (run_ticks tes s) \<and> anomalies (run_ticks tes s) = anomalies s) \<and>
      (length tes = 29 \<longrightarrow>
         tick (updateAllVitals te (run_ticks tes s)) = 30 \<and>
         anomalyMode (updateAllVitals te (run_ticks tes s)) \<and>
         anomalyModeStart (updateAllVitals te (run_ticks tes s)) = 30 \<and>
         anomalies (updateAllVitals te (run_ticks tes s)) =
           anomalies (addAnomaly (trigger_env te) ''active'' active_title active_description
             active_tags ''medium'' s))) \<and>
   tick state = 0 \<and> \<not> anomalyMode state \<and> nextAnomalyTick state = 30 \<and>
   tick (init ie state) = 0 \<and> \<not> anomalyMode (init ie state) \<and>
   nextAnomalyTick (init ie state) = 30"
proof (intro conjI impI; (elim conjE)?)
  assume idle: "\<not> anomalyMode s" and due: "nextAnomalyTick s \<le> tick s + 1"
  note one = step_trigger [OF idle due, of te]
  show "anomalyMode (updateAllVitals te s)"
    by (rule one)
  show "anomalyModeStart (updateAllVitals te s) = tick (updateAllVitals te s)"
    by (simp add: one)
  show "tick (updateAllVitals te s) = tick s + 1"
    by simp
  show "anomalies (updateAllVitals te s) =
        anomalies (addAnomaly (trigger_env te) ''active'' active_title active_description
          active_tags ''medium'' s)"
    by (rule one)
  show "hd (anomalies (updateAllVitals te s)) = active_event (trigger_env te)"
    by (simp only: one hd_addAnomaly active_event_def)
next
  show "status (active_event (trigger_env te)) = ''active''"
    by (simp add: active_event_def)
  show "severity (active_event (trigger_env te)) = ''medium''"
    by (simp add: active_event_def)
next
  assume idle: "\<not> anomalyMode s" and early: "tick s + 1 < nextAnomalyTick s"
  show "\<not> anomalyMode (updateAllVitals te s)"
    using idle early by (rule step_quiet)
  show "anomalies (updateAllVitals te s) = anomalies s"
    using idle early by (rule step_quiet)
next
  assume start: "tick s = 0" and idle: "\<not> anomalyMode s" and first: "nextAnomalyTick s = 30"
    and len: "length tes < 30"
  have "tick s + int (length tes) < nextAnomalyTick s"
    using start first len by simp
  from run_quiet [OF idle this]
  show "\<not> anomalyMode (run_ticks tes s)" and "anomalies (run_ticks tes s) = anomalies s"
    by simp_all
next
  assume start: "tick s = 0" and idle: "\<not> anomalyMode s" and first: "nextAnomalyTick s = 30"
    and len: "length tes = 29"
  have "tick s + int (length tes) < nextAnomalyTick s"
    using start first len by simp
  from run_quiet [OF idle this]
  have before: "\<not> anomalyMode (run_ticks tes s)" "nextAnomalyTick (run_ticks tes s) = 30"
    "anomalies (run_ticks tes s) = anomalies s"
    using first by simp_all
  have due: "nextAnomalyTick (run_ticks tes s) \<le> tick (run_ticks tes s) + 1"
    using before(2) start len by simp
  note one = step_trigger [OF before(1) due, of te]
  show "tick (updateAllVitals te (run_ticks tes s)) = 30"
    using start len by simp
  show "anomalyMode (updateAllVitals te (run_ticks tes s))"
    by (rule one)
  show "anomalyModeStart (updateAllVitals te (run_ticks tes s)) = 30"
    using one(2) start len by simp
  show "anomalies (updateAllVitals te (run_ticks tes s)) =
        anomalies (addAnomaly (trigger_env te) ''active'' active_title active_description
          active_tags ''medium'' s)"
    using one(4) before(3) by (simp add: addAnomaly_anomalies)
next
  show "tick state = 0" "\<not> anomalyMode state" "nextAnomalyTick state = 30"
    by (simp_all add: state_def)
  show "tick (init ie state) = 0" "\<not> anomalyMode (init ie state)"
    "nextAnomalyTick (init ie state) = 30"
    by (rule init_state)+
qed

text \<open>The state after \<^verbatim>\<open>init\<close>: at its first tick, over its first thirty ticks, and, with
  the counter put to 29, one tick before the trigger.\<close>

theorem trigger_activation_witness:
  "\<not> anomalyMode (init sample_init_env state\<lparr>tick := 29\<rparr>) \<and>
   nextAnomalyTick (init sample_init_env state\<lparr>tick := 29\<rparr>) \<le>
     tick (init sample_init_env state\<lparr>tick := 29\<rparr>) + 1 \<and>
   anomalyMode (updateAllVitals sample_tick_env (init sample_init_env state\<lparr>tick := 29\<rparr>)) \<and>
   anomalyModeStart (updateAllVitals sample_tick_env (init sample_init_env state\<lparr>tick := 29\<rparr>)) = 30 \<and>
   \<not> anomalyMode (init sample_init_env state) \<and>
   tick (init sample_init_env state) + 1 < nextAnomalyTick (init sample_init_env state) \<and>
   \<not> anomalyMode (updateAllVitals sample_tick_env (init sample_init_env state)) \<and>
   tick (init sample_init_env state) = 0 \<and> nextAnomalyTick (init sample_init_env state) = 30 \<and>
   length (replicate 29 sample_tick_env) = 29 \<and>
   \<not> anomalyMode (run_ticks (replicate 29 sample_tick_env) (init sample_init_env state)) \<and>
   anomalyMode (updateAllVitals sample_tick_env
     (run_ticks (replicate 29 sample_tick_env) (init sample_init_env state))) \<and>
   anomalies (updateAllVitals sample_tick_env
     (run_ticks (replicate 29 sample_tick_env) (init sample_init_env state))) =
     [active_event sample_env, info_event sample_env]"
proof -
  let ?s = "init sample_init_env state"
  note start = init_state [of sample_init_env]
  have late: "\<not> anomalyMode (?s\<lparr>tick := 29\<rparr>) \<and>
      nextAnomalyTick (?s\<lparr>tick := 29\<rparr>) \<le> tick (?s\<lparr>tick := 29\<rparr>) + 1"
    by (simp add: start)
  have early: "\<not> anomalyMode ?s \<and> tick ?s + 1 < nextAnomalyTick ?s"
    and zero: "tick ?s = 0 \<and> \<not> anomalyMode ?s \<and> nextAnomalyTick ?s = 30"
    by (simp_all add: start)
  have len: "length (replicate 29 sample_tick_env) = 29"
    by simp
  have log: "anomalies (addAnomaly (trigger_env sample_tick_env) ''active'' active_title
      active_description active_tags ''medium'' ?s) =
      [active_event sample_env, info_event sample_env]"
  proof -
    have "info_env sample_init_env = sample_env"
      by (simp add: sample_init_env_def)
    then have "anomalies ?s = [info_event sample_env]"
      by (simp only: start)
    then show ?thesis
      by (simp add: addAnomaly_anomalies sample_tick_env_def active_event_def)
  qed
  have a: "anomalyMode (updateAllVitals sample_tick_env (?s\<lparr>tick := 29\<rparr>)) \<and>
      anomalyModeStart (updateAllVitals sample_tick_env (?s\<lparr>tick := 29\<rparr>)) = 30"
    using trigger_activation [of "?s\<lparr>tick := 29\<rparr>" sample_tick_env "[]" sample_init_env] late
    by simp
  have b: "\<not> anomalyMode (updateAllVitals sample_tick_env ?s)"
    using trigger_activation [of ?s sample_tick_env "[]" sample_init_env] early by blast
  have c: "\<not> anomalyMode (run_ticks (replicate 29 sample_tick_env) ?s) \<and>
      anomalyMode (updateAllVitals sample_tick_env (run_ticks (replicate 29 sample_tick_env) ?s)) \<and>
      anomalies (updateAllVitals sample_tick_env (run_ticks (replicate 29 sample_tick_env) ?s)) =
        [active_event sample_env, info_event sample_env]"
    using trigger_activation [of ?s sample_tick_env "replicate 29 sample_tick_env" sample_init_env]
      zero len log
    by simp
  from late early zero len a b c show ?thesis
    by simp
qed

subsection \<open>Claim C6\<close>



subsection \<open>Claim C7\<close>

text \<open>
  Claim C7. Let the log hold at most 15 events, as the empty log of the initial state
  does. After any sequence \<open>rs\<close> of appends it holds at most 15 events, and these are the
  15 most recent ones, the newest first: the events of \<open>rs\<close> in reverse order, then the
  old log, cut after 15. One more append puts its event at the front and, when the log
  was full, drops the last event, which is the oldest; and the statistics that the
  append stores are \<open>total\<close> = the length of the log, \<open>critical\<close> = the number of
  events with severity \<^verbatim>\<open>high\<close> or status \<^verbatim>\<open>active\<close>, \<open>resolved\<close> = the number of
  events with status \<^verbatim>\<open>auto-resolved\<close>.
\<close>

theorem event_log_bounded:
  assumes "length (anomalies s) \<le> 15"
  shows "length (anomalies (append_all rs s)) \<le> 15 \<and>
         anomalies (append_all rs s) = take 15 (rev (map event_of rs) @ anomalies s) \<and>
         anomalies (addAnomaly e st ti de ta se (append_all rs s)) =
           event_of (e, st, ti, de, ta, se) #
             (if length (anomalies (append_all rs s)) = 15
              then butlast (anomalies (append_all rs s))
              else anomalies (append_all rs s)) \<and>
         anomalyStats (addAnomaly e st ti de ta se (append_all rs s)) =
           \<lparr>total = length (anomalies (addAnomaly e st ti de ta se (append_all rs s))),
            critical = length (filter (\<lambda>a. severity a = ''high'' \<or> status a = ''active'')
                         (anomalies (addAnomaly e st ti de ta se (append_all rs s)))),
            resolved = length (filter (\<lambda>a. status a = ''auto-resolved'')
                         (anomalies (addAnomaly e st ti de ta se (append_all rs s))))\<rparr>"
proof -
  let ?s' = "append_all rs s"
  have log: "anomalies ?s' = take 15 (rev (map event_of rs) @ anomalies s)"
    using assms by (rule append_all_take)
  then have len: "length (anomalies ?s') \<le> 15"
    by simp
  have front: "anomalies (addAnomaly e st ti de ta se ?s') =
      event_of (e, st, ti, de, ta, se) #
        (if length (anomalies ?s') = 15 then butlast (anomalies ?s') else anomalies ?s')"
    using len by (simp add: addAnomaly_anomalies Let_def)
  have stats: "anomalyStats (addAnomaly e st ti de ta se ?s') =
      \<lparr>total = length (anomalies (addAnomaly e st ti de ta se ?s')),
       critical = length (filter (\<lambda>a. severity a = ''high'' \<or> status a = ''active'')
                    (anomalies (addAnomaly e st ti de ta se ?s'))),
       resolved = length (filter (\<lambda>a. status a = ''auto-resolved'')
                    (anomalies (addAnomaly e st ti de ta se ?s')))\<rparr>"
    by (simp only: addAnomaly_stats Let_def)
  from len log front stats show ?thesis
    by (intro conjI)
qed

text \<open>Fifteen appends to the initial state fill the log; the sixteenth evicts one.\<close>

theorem event_log_bounded_witness:
  "length (anomalies state) \<le> 15 \<and>
   length (anomalies (append_all (replicate 15 (sample_env, ''info'', ''t'', ''d'', [], ''low'')) state)) = 15 \<and>
   anomalies (addAnomaly sample_env ''active'' ''t2'' ''d2'' [] ''high''
       (append_all (replicate 15 (sample_env, ''info'', ''t'', ''d'', [], ''low'')) state)) =
     event_of (sample_env, ''active'', ''t2'', ''d2'', [], ''high'') #
       replicate 14 (event_of (sample_env, ''info'', ''t'', ''d'', [], ''low'')) \<and>
   anomalyStats (addAnomaly sample_env ''active'' ''t2'' ''d2'' [] ''high''
       (append_all (replicate 15 (sample_env, ''info'', ''t'', ''d'', [], ''low'')) state)) =
     \<lparr>total = 15, critical = 1, resolved = 0\<rparr>"
proof -
  have init: "length (anomalies state) \<le> 15"
    by (simp add: state_def)
  have log: "anomalies (append_all (replicate 15 (sample_env, ''info'', ''t'', ''d'', [], ''low'')) state) =
      replicate 15 (event_of (sample_env, ''info'', ''t'', ''d'', [], ''low''))"
    using event_log_bounded [OF init, of "replicate 15 (sample_env, ''info'', ''t'', ''d'', [], ''low'')"]
    by (simp add: state_def map_replicate_const)
  show ?thesis
    using init log
      event_log_bounded [OF init, of "replicate 15 (sample_env, ''info'', ''t'', ''d'', [], ''low'')"
        sample_env "''active''" "''t2''" "''d2''" "[]" "''high''"]
    by (simp add: butlast_conv_take numeral_eq_Suc)
qed

subsection \<open>Claim C8\<close>




subsection \<open>Claim C9\<close>

text \<open>
  Claim C9. After \<open>n\<close> smoothing steps towards a target that does not change, the score
  is \<open>target - (target - value\<^sub>0) * 0.9 ^ n\<close>. The same holds for the ticks themselves
  (with baselines other than 0, for the risk engine):
  if the target that each of the ticks \<open>tes\<close> computes is \<open>T\<close>, the score after them is
  \<open>T - (T - value\<^sub>0) * 0.9 ^ length tes\<close>. In particular a score of 12 with a target of 12
  stays 12.
\<close>

theorem smoothing_geometric:
  "value_r (risks ((renderRisks ^^ n) s) key) =
     target (risks s key) - (target (risks s key) - value_r (risks s key)) * 0.9 ^ n \<and>
   target (risks ((renderRisks ^^ n) s) key) = target (risks s key) \<and>
   ((\<forall>sig. baseline (vitals s sig) \<noteq> 0) \<and>
    (\<forall>i\<in>{1..length tes}. target (risks (run_ticks (take i tes) s) key) = T) \<longrightarrow>
      value_r (risks (run_ticks tes s) key) = T - (T - value_r (risks s key)) * 0.9 ^ length tes) \<and>
   (value_r (risks s key) = 12 \<and> target (risks s key) = 12 \<longrightarrow>
      value_r (risks ((renderRisks ^^ n) s) key) = 12)"
  using run_ticks_constant_target [of tes s key T]
  by (simp add: renderRisks_funpow_value renderRisks_funpow_target)

theorem smoothing_geometric_witness:
  "(\<forall>sig. baseline (vitals state sig) \<noteq> 0) \<and>
   value_r (risks state Cardio) = 12 \<and> target (risks state Cardio) = 12 \<and>
   value_r (risks ((renderRisks ^^ 7) state) Cardio) = 12 \<and>
   value_r (risks ((renderRisks ^^ 2) example_state) Metabolic) = 15 - (15 - 15) * 0.9 ^ 2 \<and>
   target (risks (run_ticks (take 1 [sample_tick_env]) state) Apnea) =
     target (risks (updateAllVitals sample_tick_env state) Apnea) \<and>
   value_r (risks (run_ticks [sample_tick_env] state) Apnea) =
     target (risks (updateAllVitals sample_tick_env state) Apnea) -
       (target (risks (updateAllVitals sample_tick_env state) Apnea) - 6) * 0.9"
proof -
  have init: "value_r (risks state Cardio) = 12 \<and> target (risks state Cardio) = 12"
    by (simp add: state_def)
  have still: "value_r (risks ((renderRisks ^^ 7) state) Cardio) = 12"
    using smoothing_geometric [of 7 state Cardio "[]" 0] init by blast
  have meta: "value_r (risks ((renderRisks ^^ 2) example_state) Metabolic) = 15 - (15 - 15) * 0.9 ^ 2"
    using smoothing_geometric [of 2 example_state Metabolic "[]" 0]
    by (simp add: example_state_def state_def)
  have pos: "\<forall>sig. baseline (vitals state sig) \<noteq> 0"
  proof
    fix sig show "baseline (vitals state sig) \<noteq> 0"
      by (cases sig) (simp_all add: state_def)
  qed
  have one: "\<forall>i\<in>{1..length [sample_tick_env]}.
      target (risks (run_ticks (take i [sample_tick_env]) state) Apnea) =
      target (risks (updateAllVitals sample_tick_env state) Apnea)"
    by simp
  have "value_r (risks (run_ticks [sample_tick_env] state) Apnea) =
     target (risks (updateAllVitals sample_tick_env state) Apnea) -
       (target (risks (updateAllVitals sample_tick_env state) Apnea) - value_r (risks state Apnea)) *
       0.9 ^ length [sample_tick_env]"
    using smoothing_geometric [of 0 state Apnea "[sample_tick_env]"
        "target (risks (updateAllVitals sample_tick_env state) Apnea)"] one pos
    by blast
  then have tick: "value_r (risks (run_ticks [sample_tick_env] state) Apnea) =
     target (risks (updateAllVitals sample_tick_env state) Apnea) -
       (target (risks (updateAllVitals sample_tick_env state) Apnea) - 6) * 0.9"
    by (simp add: state_def)
  from pos init still meta tick show ?thesis
    by simp
qed

subsection \<open>Claim C10\<close>

text \<open>
  Claim C10. In the tick that ends an episode (the mode is on and the new counter is
  more than 20 past the start) the call for \<^verbatim>\<open>hr\<close>, the first of the tick, still adds
  the drift, at full severity: the stored vital comes from the value of line 90 plus
  \<open>1 * 8 + gaussRandom() * 2\<close>. That call clears the mode. Every other signal is stored
  from the value of line 90 alone, exactly as \<^verbatim>\<open>generateVital\<close> computes it with the
  mode off.
\<close>

theorem resolve_tick_drift:
  assumes "anomalyMode s" and "tick s + 1 - anomalyModeStart s > 20"
  shows "vitals (updateAllVitals te s) Hr =
           stored_vital (vitals s Hr)
             (newVal_base (vitals s Hr) (signal_env te Hr) (tick s + 1) +
              (1 * 8 + gaussRandom (drift_u (signal_env te Hr)) (drift_v (signal_env te Hr)) * 2)) \<and>
         vitals (updateAllVitals te s) Hr =
           vitals (generateVital Hr (signal_env te Hr) (s\<lparr>tick := tick s + 1\<rparr>)) Hr \<and>
         \<not> anomalyMode (generateVital Hr (signal_env te Hr) (s\<lparr>tick := tick s + 1\<rparr>)) \<and>
         (\<forall>sig. sig \<noteq> Hr \<longrightarrow>
            vitals (updateAllVitals te s) sig =
              stored_vital (vitals s sig)
                (newVal_base (vitals s sig) (signal_env te sig) (tick s + 1)) \<and>
            vitals (updateAllVitals te s) sig =
              vitals (generateVital sig (signal_env te sig)
                (s\<lparr>tick := tick s + 1, anomalyMode := False\<rparr>)) sig)"
proof -
  let ?s1 = "s\<lparr>tick := tick s + 1\<rparr>"
  have mode: "anomalyMode ?s1" and over: "tick ?s1 - anomalyModeStart ?s1 > 20"
    using assms by simp_all
  have all: "vitals (updateAllVitals te s) =
      (\<lambda>sig. stored_vital (vitals s sig)
          (if sig = Hr
           then newVal_drifted Hr (vitals s Hr) (signal_env te Hr) (tick s + 1) (anomalyModeStart s)
           else newVal_base (vitals s sig) (signal_env te sig) (tick s + 1)))"
    using assms by (simp add: updateAllVitals_control tick_resolve)
  have full: "newVal_drifted Hr (vitals s Hr) (signal_env te Hr) (tick s + 1) (anomalyModeStart s) =
      newVal_base (vitals s Hr) (signal_env te Hr) (tick s + 1) +
      (1 * 8 + gaussRandom (drift_u (signal_env te Hr)) (drift_v (signal_env te Hr)) * 2)"
    using assms(2) by (rule newVal_drifted_Hr_full)
  have hr: "vitals (updateAllVitals te s) Hr =
      stored_vital (vitals s Hr)
        (newVal_base (vitals s Hr) (signal_env te Hr) (tick s + 1) +
         (1 * 8 + gaussRandom (drift_u (signal_env te Hr)) (drift_v (signal_env te Hr)) * 2))"
    by (simp only: all full refl if_True)
  have hr_call: "vitals (generateVital Hr (signal_env te Hr) ?s1) Hr = vitals (updateAllVitals te s) Hr"
    using generateVital_resolve [OF mode over, of Hr "signal_env te Hr"] by (simp add: all)
  have cleared: "\<not> anomalyMode (generateVital Hr (signal_env te Hr) ?s1)"
    using generateVital_resolve [OF mode over, of Hr "signal_env te Hr"] by simp
  have others: "\<forall>sig. sig \<noteq> Hr \<longrightarrow>
      vitals (updateAllVitals te s) sig =
        stored_vital (vitals s sig) (newVal_base (vitals s sig) (signal_env te sig) (tick s + 1)) \<and>
      vitals (updateAllVitals te s) sig =
        vitals (generateVital sig (signal_env te sig) (s\<lparr>tick := tick s + 1, anomalyMode := False\<rparr>)) sig"
    by (simp add: all generateVital_idle)
  from hr hr_call [symmetric] cleared others show ?thesis
    by blast
qed

theorem resolve_tick_drift_witness:
  "anomalyMode (state\<lparr>tick := 50, anomalyMode := True, anomalyModeStart := 30\<rparr>) \<and>
   tick (state\<lparr>tick := 50, anomalyMode := True, anomalyModeStart := 30\<rparr>) + 1 -
     anomalyModeStart (state\<lparr>tick := 50, anomalyMode := True, anomalyModeStart := 30\<rparr>) > 20 \<and>
   vitals (updateAllVitals sample_tick_env
       (state\<lparr>tick := 50, anomalyMode := True, anomalyModeStart := 30\<rparr>)) Hr =
     stored_vital (initial_vital Hr)
       (newVal_base (initial_vital Hr) sample_env 51 + (1 * 8 + gaussRandom (1 / 2) (1 / 4) * 2)) \<and>
   vitals (updateAllVitals sample_tick_env
       (state\<lparr>tick := 50, anomalyMode := True, anomalyModeStart := 30\<rparr>)) Spo2 =
     stored_vital (initial_vital Spo2) (newVal_base (initial_vital Spo2) sample_env 51)"
proof -
  let ?s = "state\<lparr>tick := 50, anomalyMode := True, anomalyModeStart := 30\<rparr>"
  have active: "anomalyMode ?s" and over: "tick ?s + 1 - anomalyModeStart ?s > 20"
    by simp_all
  have "Spo2 \<noteq> Hr"
    by simp
  then show ?thesis
    using resolve_tick_drift [OF active over, of sample_tick_env]
    by (simp add: state_def sample_tick_env_def sample_env_def)
qed

end
